theory Spec2Isabelle
  imports Complex_Main
begin

section \<open>MotionGAN: loss composition, pose sub-encoder wiring and utilities\<close>

text \<open>
  A shallow embedding of the parts of the MotionGAN repository that its specification
  makes checkable statements about: the naming-scope context manager
  (\<^verbatim>\<open>utils/scoping.py\<close>), the quaternion helper
  (\<^verbatim>\<open>utils/tfangles.py\<close>) and the loss composer and pose sub-encoder of
  \<^verbatim>\<open>models/motiongan.py\<close>.
\<close>

subsection \<open>Naming scopes (\<^verbatim>\<open>utils/scoping.py\<close>)\<close>

text \<open>
  \<^verbatim>\<open>class Scoping\<close> has one field, the name stack, a string that is \<^verbatim>\<open>''\<close>
  initially.
\<close>

record Scoping =
  name_stack :: string

definition Scoping_init :: Scoping where
  "Scoping_init = \<lparr>name_stack = ''''\<rparr>"

text \<open>
  \<^verbatim>\<open>name_scope\<close> is a generator turned into a context manager:
  \<^verbatim>\<open>
    try:
        old_stack = self._name_stack
        if self._name_stack == '':
            self._name_stack = scope
        else:
            self._name_stack += '/' + scope
        yield self._name_stack
    finally:
        self._name_stack = old_stack
  \<close>
  The body of the \<^verbatim>\<open>with\<close> statement runs at the \<^verbatim>\<open>yield\<close>. It is a
  parameter of the model: it receives the yielded string and the object, may change
  the object as it likes, and either completes (\<open>Inr\<close>) or raises (\<open>Inl\<close>). In
  both cases the \<^verbatim>\<open>finally\<close> clause runs on the object as the body left it, and
  the outcome of the body is the outcome of the \<^verbatim>\<open>with\<close> statement.
\<close>

type_synonym ('e, 'a) with_body = "string \<Rightarrow> Scoping \<Rightarrow> ('e + 'a) \<times> Scoping"

definition name_scope :: "Scoping \<Rightarrow> string \<Rightarrow> ('e, 'a) with_body \<Rightarrow> ('e + 'a) \<times> Scoping" where
  "name_scope self scope body =
     (let old_stack = name_stack self;
          self1 = (if name_stack self = ''''
                   then self\<lparr>name_stack := scope\<rparr>
                   else self\<lparr>name_stack := name_stack self @ ''/'' @ scope\<rparr>);
          (r, self2) = body (name_stack self1) self1
      in (r, self2\<lparr>name_stack := old_stack\<rparr>))"

text \<open>\<^verbatim>\<open>__str__\<close> and \<^verbatim>\<open>__add__\<close>, with the other operand already a string.\<close>

definition Scoping_str :: "Scoping \<Rightarrow> string" where
  "Scoping_str self = name_stack self"

definition Scoping_add :: "Scoping \<Rightarrow> string \<Rightarrow> string" where
  "Scoping_add self other = Scoping_str self @ ''/'' @ other"

subsection \<open>Tensors and backend operations (\<^verbatim>\<open>models/motiongan.py\<close>)\<close>

text \<open>
  A tensor is modelled by its entries, a function of the indices; its shape is not part
  of the value but is taken, as in the source, from the model object (batch size,
  number of joints, sequence length) and from the fixed coordinate dimension 3. The
  entries are \<^verbatim>\<open>float32\<close> in the program and real numbers here: what is proved is
  the arithmetic the code asks for, without rounding.
\<close>

type_synonym tensor1 = "nat \<Rightarrow> real"
type_synonym tensor2 = "nat \<Rightarrow> nat \<Rightarrow> real"
type_synonym tensor3 = "nat \<Rightarrow> nat \<Rightarrow> nat \<Rightarrow> real"
type_synonym tensor4 = "nat \<Rightarrow> nat \<Rightarrow> nat \<Rightarrow> nat \<Rightarrow> real"

text \<open>\<^verbatim>\<open>K.epsilon()\<close>, the fuzz factor of the Keras backend: \<^verbatim>\<open>1e-7\<close> unless reset.\<close>

definition K_epsilon :: real where
  "K_epsilon = 1 / 10000000"

text \<open>\<^verbatim>\<open>K.mean\<close> along one axis of length \<open>n\<close>; \<^verbatim>\<open>K.sum\<close> is written as a sum.\<close>

definition K_mean :: "nat \<Rightarrow> (nat \<Rightarrow> real) \<Rightarrow> real" where
  "K_mean n f = (\<Sum>i<n. f i) / real n"

text \<open>
  \<^verbatim>\<open>
  def _edm(x):
      x1 = K.expand_dims(x, axis=1)
      x2 = K.expand_dims(x, axis=2)
      # epsilon needed in sqrt to avoid numerical issues
      return K.sqrt(K.sum(K.square(x1 - x2), axis=-1) + K.epsilon())
  \<close>
  For \<open>x\<close> of shape \<open>(B, J, T, 3)\<close>, \<open>x1\<close> has shape \<open>(B, 1, J, T, 3)\<close> and \<open>x2\<close>
  shape \<open>(B, J, 1, T, 3)\<close>, so entry \<open>[b, i, j, t, c]\<close> of the broadcast difference
  is \<open>x[b, j, t, c] - x[b, i, t, c]\<close>.
\<close>

definition edm :: "tensor4 \<Rightarrow> tensor4" where
  "edm x = (\<lambda>b i j t. sqrt ((\<Sum>c<3. (x b j t c - x b i t c)\<^sup>2) + K_epsilon))"

text \<open>
  The product of a \<open>(B, J, T, 3)\<close> tensor with the \<open>(B, J, T, 1)\<close> mask, broadcast
  along the last axis: \<^verbatim>\<open>real_seq * seq_mask\<close> in the losses and the
  \<^verbatim>\<open>Multiply(name='generator/mask_mult')([x, x_mask])\<close> layer of the generator.
\<close>

definition mask_mult :: "tensor4 \<Rightarrow> tensor4 \<Rightarrow> tensor4" where
  "mask_mult x x_mask = (\<lambda>b j t c. x b j t c * x_mask b j t 0)"

subsection \<open>Configuration and the model object\<close>

text \<open>The entries of \<^verbatim>\<open>configs/base_config.py\<close> that the model reads, and the
  number of joints and actions that \<^verbatim>\<open>get_config\<close> adds for the data set.\<close>

record config =
  cfg_batch_size :: nat
  cfg_num_actions :: nat
  cfg_njoints :: nat
  cfg_pick_num :: nat
  cfg_crop_len :: nat
  cfg_lambda_grads :: real
  cfg_action_cond :: bool
  cfg_latent_cond_dim :: nat
  cfg_coherence_loss :: bool
  cfg_displacement_loss :: bool
  cfg_shape_loss :: bool
  cfg_smoothing_loss :: bool
  cfg_use_pose_vae :: bool

text \<open>The base configuration (data set NTURGBD: 60 actions, 25 joints). The file has no
  \<^verbatim>\<open>use_pose_vae\<close> entry, which \<^verbatim>\<open>__init__\<close> reads: a template or a saved
  configuration has to supply it. Here it is off.\<close>

definition base_config :: config where
  "base_config = \<lparr>cfg_batch_size = 256, cfg_num_actions = 60, cfg_njoints = 25,
     cfg_pick_num = 20, cfg_crop_len = 0, cfg_lambda_grads = 10, cfg_action_cond = True,
     cfg_latent_cond_dim = 0, cfg_coherence_loss = True, cfg_displacement_loss = False,
     cfg_shape_loss = True, cfg_smoothing_loss = True, cfg_use_pose_vae = False\<rparr>"

record MotionGAN =
  batch_size :: nat
  num_actions :: nat
  seq_len :: "nat option"
  njoints :: nat
  lambda_grads :: real
  gamma_grads :: real
  rec_scale :: real
  action_cond :: bool
  action_scale_d :: real
  action_scale_g :: real
  latent_cond_dim :: nat
  latent_scale_d :: real
  latent_scale_g :: real
  coherence_loss :: bool
  coherence_scale :: real
  displacement_loss :: bool
  displacement_scale :: real
  shape_loss :: bool
  shape_scale :: real
  smoothing_loss :: bool
  smoothing_scale :: real
  use_pose_vae :: bool
  frame_scale :: real

text \<open>The attribute assignments at the head of \<^verbatim>\<open>_MotionGAN.__init__\<close>.\<close>

definition MotionGAN_init :: "config \<Rightarrow> MotionGAN" where
  "MotionGAN_init c = \<lparr>
     batch_size = cfg_batch_size c,
     num_actions = cfg_num_actions c,
     seq_len = (if cfg_pick_num c > 0 then Some (cfg_pick_num c)
                else if cfg_crop_len c > 0 then Some (cfg_crop_len c) else None),
     njoints = cfg_njoints c,
     lambda_grads = cfg_lambda_grads c,
     gamma_grads = 1,
     rec_scale = 1,
     action_cond = cfg_action_cond c,
     action_scale_d = 10,
     action_scale_g = 10,
     latent_cond_dim = cfg_latent_cond_dim c,
     latent_scale_d = 1,
     latent_scale_g = 1,
     coherence_loss = cfg_coherence_loss c,
     coherence_scale = 1 / 10,
     displacement_loss = cfg_displacement_loss c,
     displacement_scale = 1 / 10,
     shape_loss = cfg_shape_loss c,
     shape_scale = 1,
     smoothing_loss = cfg_smoothing_loss c,
     smoothing_scale = 1 / 10,
     use_pose_vae = cfg_use_pose_vae c,
     frame_scale = 10\<rparr>"

text \<open>
  The length of the time axis of the model's tensors. With \<^verbatim>\<open>seq_len = None\<close> the
  graph has a time axis of unknown length, which this model of the losses does not
  cover: every statement below is about a model whose \<^verbatim>\<open>seq_len\<close> is set.
\<close>

definition frames :: "MotionGAN \<Rightarrow> nat" where
  "frames M = (case seq_len M of Some T \<Rightarrow> T | None \<Rightarrow> 0)"

subsection \<open>The networks, as far as the losses see them\<close>

text \<open>
  The discriminator is a function of its input batch (its weights are fixed while a
  loss is evaluated). Its outputs are the fields below; the gradients that
  \<^verbatim>\<open>K.gradients\<close> returns for the two scores with respect to the input are fields
  of their own, and \<open>disc_reg_losses\<close> are the values of the regularisation terms
  of its layers (\<^verbatim>\<open>disc_model.losses\<close>).
\<close>

record disc_model =
  score_out :: "tensor4 \<Rightarrow> tensor2"
  label_out :: "tensor4 \<Rightarrow> tensor2"
  latent_cond_out :: "tensor4 \<Rightarrow> tensor2"
  frame_score_out :: "tensor4 \<Rightarrow> tensor3"
  score_out_grad :: "tensor4 \<Rightarrow> tensor4"
  frame_score_out_grad :: "tensor4 \<Rightarrow> tensor4"
  disc_reg_losses :: "real list"

subsection \<open>Loss terms of \<^verbatim>\<open>_MotionGAN._build_loss\<close>\<close>

text \<open>
  \<^verbatim>\<open>
  zero_sum = K.sum(real_seq, axis=(1, 3))
  zero_frames = K.cast(K.not_equal(zero_sum, K.zeros_like(zero_sum)), 'float32') + K.epsilon()
  \<close>
\<close>

definition zero_sum :: "MotionGAN \<Rightarrow> tensor4 \<Rightarrow> tensor2" where
  "zero_sum M real_seq = (\<lambda>b t. \<Sum>j<njoints M. \<Sum>c<3. real_seq b j t c)"

definition zero_frames :: "MotionGAN \<Rightarrow> tensor4 \<Rightarrow> tensor2" where
  "zero_frames M real_seq =
     (\<lambda>b t. (if zero_sum M real_seq b t \<noteq> 0 then 1 else 0) + K_epsilon)"

text \<open>
  \<^verbatim>\<open>
  loss_real = K.mean(_get_tensor(self.real_outputs, 'score_out'), axis=-1)
  loss_fake = K.mean(_get_tensor(self.fake_outputs, 'score_out'), axis=-1)
  \<close>
  The score has shape \<open>(B, 1)\<close>. The same expression serves both, on the real batch
  and on the generated one.
\<close>

definition loss_score :: "disc_model \<Rightarrow> tensor4 \<Rightarrow> tensor1" where
  "loss_score D x = (\<lambda>b. K_mean 1 (\<lambda>k. score_out D x b k))"

text \<open>
  \<^verbatim>\<open>
  alpha = K.random_uniform((self.batch_size, 1, 1, 1))
  interpolates = (alpha * real_seq) + ((1 - alpha) * gen_seq)
  \<close>
  The random draw is an argument: one coefficient for each sample of the batch.
\<close>

definition interpolates :: "tensor1 \<Rightarrow> tensor4 \<Rightarrow> tensor4 \<Rightarrow> tensor4" where
  "interpolates alpha real_seq gen_seq =
     (\<lambda>b j t c. (alpha b * real_seq b j t c) + ((1 - alpha b) * gen_seq b j t c))"

text \<open>
  \<^verbatim>\<open>
  inter_outputs = self.disc_model(interpolates)
  inter_score = _get_tensor(inter_outputs, 'discriminator/score_out')
  grad_mixed = K.gradients(inter_score, [interpolates])[0]
  norm_grad_mixed = K.sqrt(K.sum(K.square(grad_mixed), axis=(1, 2, 3)))
  grad_penalty = K.mean(K.square(norm_grad_mixed - self.gamma_grads) / (self.gamma_grads ** 2), axis=-1)
  \<close>
  \<open>norm_grad_mixed\<close> has shape \<open>(B)\<close>, so the mean along its last axis is the mean
  over the batch, a scalar.
\<close>

definition norm_grad_mixed :: "MotionGAN \<Rightarrow> disc_model \<Rightarrow> tensor4 \<Rightarrow> tensor1" where
  "norm_grad_mixed M D x =
     (\<lambda>b. sqrt (\<Sum>j<njoints M. \<Sum>t<frames M. \<Sum>c<3. (score_out_grad D x b j t c)\<^sup>2))"

definition grad_penalty :: "MotionGAN \<Rightarrow> disc_model \<Rightarrow> tensor4 \<Rightarrow> real" where
  "grad_penalty M D x =
     K_mean (batch_size M) (\<lambda>b. (norm_grad_mixed M D x b - gamma_grads M)\<^sup>2 / (gamma_grads M)\<^sup>2)"

text \<open>
  \<^verbatim>\<open>
  disc_loss_wgan = loss_fake - loss_real + (self.lambda_grads * grad_penalty)
  gen_loss_wgan = -loss_fake
  \<close>
\<close>

definition disc_loss_wgan :: "MotionGAN \<Rightarrow> disc_model \<Rightarrow> tensor1 \<Rightarrow> tensor4 \<Rightarrow> tensor4 \<Rightarrow> tensor1" where
  "disc_loss_wgan M D alpha real_seq gen_seq =
     (\<lambda>b. loss_score D gen_seq b - loss_score D real_seq b
          + (lambda_grads M * grad_penalty M D (interpolates alpha real_seq gen_seq)))"

definition gen_loss_wgan :: "disc_model \<Rightarrow> tensor4 \<Rightarrow> tensor1" where
  "gen_loss_wgan D gen_seq = (\<lambda>b. - loss_score D gen_seq b)"

text \<open>
  \<^verbatim>\<open>
  loss_rec = K.sum(K.sum(K.mean(K.square((real_seq * seq_mask) - (gen_seq * seq_mask)), axis=-1), axis=1) * zero_frames, axis=1)
  loss_rec_edm = K.sum(K.sum(K.square(_edm(real_seq * seq_mask) - _edm(gen_seq * seq_mask)), axis=(1, 2)) * zero_frames, axis=1)
  \<close>
  In each, the factor of \<^verbatim>\<open>zero_frames\<close> is a \<open>(B, T)\<close> tensor, the term of a
  frame before weighting; it is named here.
\<close>

definition rec_frame :: "MotionGAN \<Rightarrow> tensor4 \<Rightarrow> tensor4 \<Rightarrow> tensor4 \<Rightarrow> tensor2" where
  "rec_frame M real_seq seq_mask gen_seq =
     (\<lambda>b t. \<Sum>j<njoints M.
        K_mean 3 (\<lambda>c. (mask_mult real_seq seq_mask b j t c - mask_mult gen_seq seq_mask b j t c)\<^sup>2))"

definition loss_rec :: "MotionGAN \<Rightarrow> tensor4 \<Rightarrow> tensor4 \<Rightarrow> tensor4 \<Rightarrow> tensor1" where
  "loss_rec M real_seq seq_mask gen_seq =
     (\<lambda>b. \<Sum>t<frames M. rec_frame M real_seq seq_mask gen_seq b t * zero_frames M real_seq b t)"

definition rec_edm_frame :: "MotionGAN \<Rightarrow> tensor4 \<Rightarrow> tensor4 \<Rightarrow> tensor4 \<Rightarrow> tensor2" where
  "rec_edm_frame M real_seq seq_mask gen_seq =
     (\<lambda>b t. \<Sum>i<njoints M. \<Sum>j<njoints M.
        (edm (mask_mult real_seq seq_mask) b i j t - edm (mask_mult gen_seq seq_mask) b i j t)\<^sup>2)"

definition loss_rec_edm :: "MotionGAN \<Rightarrow> tensor4 \<Rightarrow> tensor4 \<Rightarrow> tensor4 \<Rightarrow> tensor1" where
  "loss_rec_edm M real_seq seq_mask gen_seq =
     (\<lambda>b. \<Sum>t<frames M. rec_edm_frame M real_seq seq_mask gen_seq b t * zero_frames M real_seq b t)"

text \<open>
  The frame-level adversarial terms, built when the pose sub-encoder is on:
  \<^verbatim>\<open>
  frame_loss_real = K.sum(K.squeeze(_get_tensor(self.real_outputs, 'frame_score_out'), axis=-1) * zero_frames, axis=1)
  frame_loss_fake = K.sum(K.squeeze(_get_tensor(self.fake_outputs, 'frame_score_out'), axis=-1) * zero_frames, axis=1)
  frame_inter_score = _get_tensor(inter_outputs, 'discriminator/frame_score_out')
  frame_grad_mixed = K.gradients(frame_inter_score, [interpolates])[0]
  frame_norm_grad_mixed = K.sqrt(K.sum(K.sum(K.square(frame_grad_mixed), axis=(1, 3)) * zero_frames, axis=1))
  frame_grad_penalty = K.mean(K.square(frame_norm_grad_mixed - self.gamma_grads) / (self.gamma_grads ** 2), axis=-1)
  frame_disc_loss_wgan = frame_loss_fake - frame_loss_real + (self.lambda_grads * frame_grad_penalty)
  frame_gen_loss_wgan = -frame_loss_fake
  \<close>
  The frame score has shape \<open>(B, T, 1)\<close>. The weights are those of the real batch in
  every term.
\<close>

definition frame_loss :: "MotionGAN \<Rightarrow> disc_model \<Rightarrow> tensor4 \<Rightarrow> tensor4 \<Rightarrow> tensor1" where
  "frame_loss M D real_seq x =
     (\<lambda>b. \<Sum>t<frames M. frame_score_out D x b t 0 * zero_frames M real_seq b t)"

definition frame_grad_sq :: "MotionGAN \<Rightarrow> disc_model \<Rightarrow> tensor4 \<Rightarrow> tensor2" where
  "frame_grad_sq M D x = (\<lambda>b t. \<Sum>j<njoints M. \<Sum>c<3. (frame_score_out_grad D x b j t c)\<^sup>2)"

definition frame_norm_grad_mixed :: "MotionGAN \<Rightarrow> disc_model \<Rightarrow> tensor4 \<Rightarrow> tensor4 \<Rightarrow> tensor1" where
  "frame_norm_grad_mixed M D real_seq x =
     (\<lambda>b. sqrt (\<Sum>t<frames M. frame_grad_sq M D x b t * zero_frames M real_seq b t))"

definition frame_grad_penalty :: "MotionGAN \<Rightarrow> disc_model \<Rightarrow> tensor4 \<Rightarrow> tensor4 \<Rightarrow> real" where
  "frame_grad_penalty M D real_seq x =
     K_mean (batch_size M)
       (\<lambda>b. (frame_norm_grad_mixed M D real_seq x b - gamma_grads M)\<^sup>2 / (gamma_grads M)\<^sup>2)"

definition frame_disc_loss_wgan ::
  "MotionGAN \<Rightarrow> disc_model \<Rightarrow> tensor1 \<Rightarrow> tensor4 \<Rightarrow> tensor4 \<Rightarrow> tensor1" where
  "frame_disc_loss_wgan M D alpha real_seq gen_seq =
     (\<lambda>b. frame_loss M D real_seq gen_seq b - frame_loss M D real_seq real_seq b
          + (lambda_grads M * frame_grad_penalty M D real_seq (interpolates alpha real_seq gen_seq)))"

definition frame_gen_loss_wgan :: "MotionGAN \<Rightarrow> disc_model \<Rightarrow> tensor4 \<Rightarrow> tensor4 \<Rightarrow> tensor1" where
  "frame_gen_loss_wgan M D real_seq gen_seq = (\<lambda>b. - frame_loss M D real_seq gen_seq b)"

text \<open>
  The conditional losses.
  \<^verbatim>\<open>
  loss_class_real = K.mean(K.sparse_categorical_crossentropy(
      _get_tensor(self.place_holders, 'true_label'),
      _get_tensor(self.real_outputs, 'label_out'), True))
  loss_latent = K.mean(K.square(_get_tensor(self.fake_outputs, 'latent_cond_out')
                                - _get_tensor(self.gen_inputs, 'latent_cond_input')))
  \<close>
  The cross-entropy is taken from logits: minus the logarithm of the softmax at the
  true label.
\<close>

definition loss_class :: "MotionGAN \<Rightarrow> (nat \<Rightarrow> nat) \<Rightarrow> tensor2 \<Rightarrow> real" where
  "loss_class M true_label logits =
     K_mean (batch_size M)
       (\<lambda>b. - ln (exp (logits b (true_label b)) / (\<Sum>k<num_actions M. exp (logits b k))))"

definition loss_latent :: "MotionGAN \<Rightarrow> tensor2 \<Rightarrow> tensor2 \<Rightarrow> real" where
  "loss_latent M latent_out latent_cond_input =
     (\<Sum>b<batch_size M. \<Sum>k<latent_cond_dim M. (latent_out b k - latent_cond_input b k)\<^sup>2)
       / real (batch_size M * latent_cond_dim M)"

text \<open>
  \<^verbatim>\<open>
  exp_decay = 1.0 / np.exp(np.linspace(0.0, 2.0, self.seq_len, dtype='float32'))
  exp_decay = np.reshape(exp_decay, (1, 1, 1, self.seq_len))
  loss_coh = K.sum(K.mean(K.square(_edm(real_seq) - _edm(gen_seq)) * exp_decay, axis=-1), axis=(1, 2))
  \<close>
\<close>

definition np_linspace :: "real \<Rightarrow> real \<Rightarrow> nat \<Rightarrow> nat \<Rightarrow> real" where
  "np_linspace start stop num = (\<lambda>t. if num = 1 then start
                                      else start + real t * ((stop - start) / real (num - 1)))"

definition exp_decay :: "MotionGAN \<Rightarrow> nat \<Rightarrow> real" where
  "exp_decay M = (\<lambda>t. 1 / exp (np_linspace 0 2 (frames M) t))"

definition loss_coh :: "MotionGAN \<Rightarrow> tensor4 \<Rightarrow> tensor4 \<Rightarrow> tensor1" where
  "loss_coh M real_seq gen_seq =
     (\<lambda>b. \<Sum>i<njoints M. \<Sum>j<njoints M.
        K_mean (frames M) (\<lambda>t. (edm real_seq b i j t - edm gen_seq b i j t)\<^sup>2 * exp_decay M t))"

text \<open>
  \<^verbatim>\<open>
  gen_seq_l = gen_seq[:, :, :-1, :]
  gen_seq_r = gen_seq[:, :, 1:, :]
  loss_disp = K.sum(K.mean(K.square(gen_seq_l - gen_seq_r), axis=-1), axis=(1, 2))
  \<close>
\<close>

definition loss_disp :: "MotionGAN \<Rightarrow> tensor4 \<Rightarrow> tensor1" where
  "loss_disp M gen_seq =
     (\<lambda>b. \<Sum>j<njoints M. \<Sum>t<frames M - 1.
        K_mean 3 (\<lambda>c. (gen_seq b j t c - gen_seq b j (t + 1) c)\<^sup>2))"

text \<open>
  The shape-preservation loss.
  \<^verbatim>\<open>
  mask = np.ones((self.njoints, self.njoints), dtype='float32')
  mask = np.triu(mask, 1) - np.triu(mask, 2)
  mask = np.reshape(mask, (1, self.njoints, self.njoints, 1))
  real_shape = K.mean(_edm(real_seq), axis=-1, keepdims=True) * mask
  gen_shape = _edm(gen_seq) * mask
  loss_shape = K.sum(K.mean(K.square(real_shape - gen_shape), axis=-1), axis=(1, 2))
  \<close>
  \<^verbatim>\<open>np.triu(m, k)\<close> keeps the entries \<open>m[i, j]\<close> with \<open>j - i \<ge> k\<close> and puts zero
  elsewhere.
\<close>

definition np_ones :: "nat \<Rightarrow> nat \<Rightarrow> real" where
  "np_ones = (\<lambda>i j. 1)"

definition np_triu :: "(nat \<Rightarrow> nat \<Rightarrow> real) \<Rightarrow> nat \<Rightarrow> nat \<Rightarrow> nat \<Rightarrow> real" where
  "np_triu m k = (\<lambda>i j. if i + k \<le> j then m i j else 0)"

definition shape_mask :: "nat \<Rightarrow> nat \<Rightarrow> real" where
  "shape_mask = (\<lambda>i j. np_triu np_ones 1 i j - np_triu np_ones 2 i j)"

definition real_shape :: "MotionGAN \<Rightarrow> tensor4 \<Rightarrow> tensor3" where
  "real_shape M real_seq = (\<lambda>b i j. K_mean (frames M) (\<lambda>t. edm real_seq b i j t) * shape_mask i j)"

definition gen_shape :: "tensor4 \<Rightarrow> tensor4" where
  "gen_shape gen_seq = (\<lambda>b i j t. edm gen_seq b i j t * shape_mask i j)"

definition loss_shape :: "MotionGAN \<Rightarrow> tensor4 \<Rightarrow> tensor4 \<Rightarrow> tensor1" where
  "loss_shape M real_seq gen_seq =
     (\<lambda>b. \<Sum>i<njoints M. \<Sum>j<njoints M.
        K_mean (frames M) (\<lambda>t. (real_shape M real_seq b i j - gen_shape gen_seq b i j t)\<^sup>2))"

text \<open>
  The smoothing loss. The projection matrix \<^verbatim>\<open>Qs = pinv(Q) Q\<close>, with \<open>Q\<close> the first
  three rows of \<^verbatim>\<open>idct(np.eye(self.seq_len))\<close>, is computed by SciPy; it is an
  argument here.
  \<^verbatim>\<open>
  gen_seq_s = K.permute_dimensions(gen_seq, (0, 1, 3, 2))
  gen_seq_s = K.dot(gen_seq_s, Qs)
  gen_seq_s = K.permute_dimensions(gen_seq_s, (0, 1, 3, 2))
  loss_smooth = K.sum(K.mean(K.square(gen_seq_s - gen_seq), axis=-1), axis=(1, 2))
  \<close>
\<close>

definition gen_seq_s :: "MotionGAN \<Rightarrow> tensor2 \<Rightarrow> tensor4 \<Rightarrow> tensor4" where
  "gen_seq_s M Qs gen_seq = (\<lambda>b j t c. \<Sum>s<frames M. gen_seq b j s c * Qs s t)"

definition loss_smooth :: "MotionGAN \<Rightarrow> tensor2 \<Rightarrow> tensor4 \<Rightarrow> tensor1" where
  "loss_smooth M Qs gen_seq =
     (\<lambda>b. \<Sum>j<njoints M. \<Sum>t<frames M.
        K_mean 3 (\<lambda>c. (gen_seq_s M Qs gen_seq b j t c - gen_seq b j t c)\<^sup>2))"

subsection \<open>The loss dictionaries\<close>

text \<open>
  An \<^verbatim>\<open>OrderedDict\<close> is a list of key-value pairs in insertion order.
  \<^verbatim>\<open>d[k] = v\<close> replaces the value of a key already present, in place, and appends a
  new key at the end; \<^verbatim>\<open>OrderedDict(pairs)\<close> inserts the pairs one after the other.
\<close>

type_synonym ('k, 'v) odict = "('k \<times> 'v) list"

fun od_set :: "('k, 'v) odict \<Rightarrow> 'k \<Rightarrow> 'v \<Rightarrow> ('k, 'v) odict" where
  "od_set [] k v = [(k, v)]"
| "od_set ((k', v') # d) k v = (if k' = k then (k, v) # d else (k', v') # od_set d k v)"

text \<open>An assignment under a condition: \<^verbatim>\<open>if c: d[k] = v\<close>.\<close>

definition od_set_when :: "bool \<Rightarrow> ('k, 'v) odict \<Rightarrow> 'k \<Rightarrow> 'v \<Rightarrow> ('k, 'v) odict" where
  "od_set_when c d k v = (if c then od_set d k v else d)"

definition od_keys :: "('k, 'v) odict \<Rightarrow> 'k list" where
  "od_keys d = map fst d"

definition od_values :: "('k, 'v) odict \<Rightarrow> 'v list" where
  "od_values d = map snd d"

definition OrderedDict :: "('k \<times> 'v) list \<Rightarrow> ('k, 'v) odict" where
  "OrderedDict pairs = foldl (\<lambda>d (k, v). od_set d k v) [] pairs"

text \<open>
  The generator, as far as the losses and the reports see it: its output sequence
  \<^verbatim>\<open>gen_outputs[0]\<close> and the latent \<^verbatim>\<open>vae_z\<close> of the pose sub-encoder, both
  functions of the generator's inputs, and the values of its regularisation terms.
\<close>

record gen_model =
  gen_outputs :: "tensor4 \<Rightarrow> tensor4 \<Rightarrow> tensor2 \<Rightarrow> tensor4"
  vae_z :: "tensor4 \<Rightarrow> tensor4 \<Rightarrow> tensor2 \<Rightarrow> tensor3"
  gen_reg_losses :: "real list"

text \<open>
  What one evaluation is fed: the discriminator and generator inputs, the label
  placeholder, and the two things that are fixed by the graph rather than by the
  caller, the random draw \<^verbatim>\<open>alpha\<close> and the smoothing projection \<^verbatim>\<open>Qs\<close>.
\<close>

record feed =
  in_real_seq :: tensor4
  in_seq_mask :: tensor4
  in_latent_cond_input :: tensor2
  in_true_label :: "nat \<Rightarrow> nat"
  in_alpha :: tensor1
  in_Qs :: tensor2

text \<open>
  \<^verbatim>\<open>_build_loss\<close>, with every tensor evaluated on the feed. The entries are inserted
  in the order of the source; the one \<^verbatim>\<open>if self.use_pose_vae:\<close> block of the source
  makes four assignments, each written here under that condition.
  \<^verbatim>\<open>model.losses\<close> is summed over the set of its
  tensors; \<open>disc_reg_losses\<close> and \<open>gen_reg_losses\<close> hold the values of these distinct
  tensors.
\<close>

definition build_loss ::
  "MotionGAN \<Rightarrow> disc_model \<Rightarrow> gen_model \<Rightarrow> feed
     \<Rightarrow> (string, real) odict \<times> (string, real) odict \<times> (string, real) odict" where
  "build_loss M D G inp =
     (let B = batch_size M;
          real_seq = in_real_seq inp;
          seq_mask = in_seq_mask inp;
          gen_seq = gen_outputs G real_seq seq_mask (in_latent_cond_input inp);
          wgan_losses = [];
          disc_losses = [];
          gen_losses = [];
          wgan_losses = od_set wgan_losses ''loss_real'' (K_mean B (loss_score D real_seq));
          wgan_losses = od_set wgan_losses ''loss_fake'' (K_mean B (loss_score D gen_seq));
          disc_losses = od_set disc_losses ''disc_loss_wgan''
                          (K_mean B (disc_loss_wgan M D (in_alpha inp) real_seq gen_seq));
          gen_losses = od_set gen_losses ''gen_loss_wgan'' (K_mean B (gen_loss_wgan D gen_seq));
          disc_losses = od_set_when (length (disc_reg_losses D) > 0)
                          disc_losses ''disc_loss_reg'' (0 + sum_list (disc_reg_losses D));
          gen_losses = od_set_when (length (gen_reg_losses G) > 0)
                         gen_losses ''gen_loss_reg'' (0 + sum_list (gen_reg_losses G));
          gen_losses = od_set gen_losses ''gen_loss_rec''
                         (rec_scale M * K_mean B (loss_rec M real_seq seq_mask gen_seq));
          gen_losses = od_set gen_losses ''gen_loss_rec_edm''
                         (0.1 * rec_scale M * K_mean B (loss_rec_edm M real_seq seq_mask gen_seq));
          wgan_losses = od_set_when (use_pose_vae M)
                          wgan_losses ''frame_loss_real'' (K_mean B (frame_loss M D real_seq real_seq));
          wgan_losses = od_set_when (use_pose_vae M)
                          wgan_losses ''frame_loss_fake'' (K_mean B (frame_loss M D real_seq gen_seq));
          disc_losses = od_set_when (use_pose_vae M)
                          disc_losses ''frame_disc_loss_wgan''
                          (frame_scale M * K_mean B (frame_disc_loss_wgan M D (in_alpha inp) real_seq gen_seq));
          gen_losses = od_set_when (use_pose_vae M)
                         gen_losses ''frame_gen_loss_wgan''
                         (frame_scale M * K_mean B (frame_gen_loss_wgan M D real_seq gen_seq));
          loss_class_real = loss_class M (in_true_label inp) (label_out D real_seq);
          loss_class_fake = loss_class M (in_true_label inp) (label_out D gen_seq);
          disc_losses = od_set_when (action_cond M)
                          disc_losses ''disc_loss_action''
                          (action_scale_d M * (loss_class_real + loss_class_fake));
          gen_losses = od_set_when (action_cond M)
                         gen_losses ''gen_loss_action'' (action_scale_g M * loss_class_fake);
          loss_lat = loss_latent M (latent_cond_out D gen_seq) (in_latent_cond_input inp);
          disc_losses = od_set_when (latent_cond_dim M > 0)
                          disc_losses ''disc_loss_latent'' (latent_scale_d M * loss_lat);
          gen_losses = od_set_when (latent_cond_dim M > 0)
                         gen_losses ''gen_loss_latent'' (latent_scale_g M * loss_lat);
          gen_losses = od_set_when (coherence_loss M)
                         gen_losses ''gen_loss_coh''
                         (coherence_scale M * K_mean B (loss_coh M real_seq gen_seq));
          gen_losses = od_set_when (displacement_loss M)
                         gen_losses ''gen_loss_disp''
                         (displacement_scale M * K_mean B (loss_disp M gen_seq));
          gen_losses = od_set_when (shape_loss M)
                         gen_losses ''gen_loss_shape''
                         (shape_scale M * K_mean B (loss_shape M real_seq gen_seq));
          gen_losses = od_set_when (smoothing_loss M)
                         gen_losses ''gen_loss_smooth''
                         (smoothing_scale M * K_mean B (loss_smooth M (in_Qs inp) gen_seq))
      in (wgan_losses, disc_losses, gen_losses))"

text \<open>
  The four entry points. \<^verbatim>\<open>K.function(inputs, outputs)\<close> returns the values of its
  outputs, in their order; for the two training functions it also updates the
  weights of one network, which the returned report does not show and this model
  leaves out.
  \<^verbatim>\<open>
  def disc_train(self, inputs):
      train_outs = self.disc_train_f(inputs)
      keys = self.wgan_losses.keys() + self.disc_losses.keys()
      keys = ['train/%s' % key for key in keys]
      losses_dict = OrderedDict(zip(keys, train_outs))
      return losses_dict
  \<close>
  with \<^verbatim>\<open>disc_train_f\<close> returning \<^verbatim>\<open>self.wgan_losses.values() + self.disc_losses.values()\<close>.
\<close>

definition disc_train :: "MotionGAN \<Rightarrow> disc_model \<Rightarrow> gen_model \<Rightarrow> feed \<Rightarrow> (string, real) odict" where
  "disc_train M D G inp =
     (let (wgan_losses, disc_losses, gen_losses) = build_loss M D G inp;
          train_outs = od_values wgan_losses @ od_values disc_losses;
          keys = od_keys wgan_losses @ od_keys disc_losses;
          keys = map (\<lambda>key. ''train/'' @ key) keys
      in OrderedDict (zip keys train_outs))"

definition disc_eval :: "MotionGAN \<Rightarrow> disc_model \<Rightarrow> gen_model \<Rightarrow> feed \<Rightarrow> (string, real) odict" where
  "disc_eval M D G inp =
     (let (wgan_losses, disc_losses, gen_losses) = build_loss M D G inp;
          eval_outs = od_values wgan_losses @ od_values disc_losses;
          keys = od_keys wgan_losses @ od_keys disc_losses;
          keys = map (\<lambda>key. ''val/'' @ key) keys
      in OrderedDict (zip keys eval_outs))"

definition gen_train :: "MotionGAN \<Rightarrow> disc_model \<Rightarrow> gen_model \<Rightarrow> feed \<Rightarrow> (string, real) odict" where
  "gen_train M D G inp =
     (let (wgan_losses, disc_losses, gen_losses) = build_loss M D G inp;
          train_outs = od_values gen_losses;
          keys = od_keys gen_losses;
          keys = map (\<lambda>key. ''train/'' @ key) keys
      in OrderedDict (zip keys train_outs))"

text \<open>
  \<^verbatim>\<open>gen_eval_f\<close> returns the generator losses, then \<^verbatim>\<open>vae_z\<close> when the pose
  sub-encoder is on, then the generator's outputs (a list of one tensor):
  \<^verbatim>\<open>
  def gen_eval(self, inputs):
      eval_outs = self.gen_eval_f(inputs)
      keys = self.gen_losses.keys()
      keys = ['val/%s' % key for key in keys]
      if self.use_pose_vae:
          keys.append('vae_z')
      keys.append('gen_outputs')
      losses_dict = OrderedDict(zip(keys, eval_outs))
      return losses_dict
  \<close>
\<close>

datatype fetched = Scalar real | Latent tensor3 | Sequence tensor4

definition gen_eval :: "MotionGAN \<Rightarrow> disc_model \<Rightarrow> gen_model \<Rightarrow> feed \<Rightarrow> (string, fetched) odict" where
  "gen_eval M D G inp =
     (let (wgan_losses, disc_losses, gen_losses) = build_loss M D G inp;
          gen_f_outs = map Scalar (od_values gen_losses);
          gen_f_outs = (if use_pose_vae M
                        then gen_f_outs @ [Latent (vae_z G (in_real_seq inp) (in_seq_mask inp) (in_latent_cond_input inp))]
                        else gen_f_outs);
          gen_f_outs = gen_f_outs
                         @ [Sequence (gen_outputs G (in_real_seq inp) (in_seq_mask inp) (in_latent_cond_input inp))];
          eval_outs = gen_f_outs;
          keys = od_keys gen_losses;
          keys = map (\<lambda>key. ''val/'' @ key) keys;
          keys = (if use_pose_vae M then keys @ [''vae_z''] else keys);
          keys = keys @ [''gen_outputs'']
      in OrderedDict (zip keys eval_outs))"

subsection \<open>Concrete inputs\<close>

text \<open>Small models and batches on which the definitions are evaluated below.\<close>

definition tiny_model :: "nat \<Rightarrow> nat \<Rightarrow> nat \<Rightarrow> MotionGAN" where
  "tiny_model B J T =
     MotionGAN_init (base_config\<lparr>cfg_batch_size := B, cfg_njoints := J, cfg_pick_num := T\<rparr>)"

definition zeros_seq :: tensor4 where
  "zeros_seq = (\<lambda>b j t c. 0)"

definition ones_seq :: tensor4 where
  "ones_seq = (\<lambda>b j t c. 1)"

definition half_seq :: tensor4 where
  "half_seq = (\<lambda>b j t c. 1 / 2)"

text \<open>A sequence recorded for one frame and padded with zeros after it.\<close>

definition padded_seq :: tensor4 where
  "padded_seq = (\<lambda>b j t c. if t < 1 then 1 else 0)"

text \<open>Joint 0 rests at the origin, joint 1 moves along the first axis: at frame \<open>t\<close>
  it is at \<open>(t + 1, 0, 0)\<close>.\<close>

definition stretch_seq :: tensor4 where
  "stretch_seq = (\<lambda>b j t c. if j = 1 \<and> c = 0 then real (t + 1) else 0)"

text \<open>Three joints on a line, at \<open>(0,0,0)\<close>, \<open>(1,0,0)\<close>, \<open>(2,0,0)\<close>; and the same
  skeleton bent at the middle joint, the last joint at \<open>(1,1,0)\<close>.\<close>

definition line_seq :: tensor4 where
  "line_seq = (\<lambda>b j t c. if c = 0 then real j else 0)"

definition bent_seq :: tensor4 where
  "bent_seq = (\<lambda>b j t c. if j = 1 \<and> c = 0 then 1
                          else if j = 2 \<and> (c = 0 \<or> c = 1) then 1 else 0)"

text \<open>A mask that observes the first frame only.\<close>

definition first_frame_mask :: tensor4 where
  "first_frame_mask = (\<lambda>b j t c. if t < 1 then 1 else 0)"

text \<open>
  A critic that scores a sample by the square of one entry (and a frame by the square
  of one entry of the frame), with the gradients of these scores, and a generator
  that returns its masked input.
\<close>

definition toy_disc :: disc_model where
  "toy_disc = \<lparr>
     score_out = (\<lambda>x b k. (x b 0 0 0)\<^sup>2),
     label_out = (\<lambda>x b k. 0),
     latent_cond_out = (\<lambda>x b k. 0),
     frame_score_out = (\<lambda>x b t k. (x b 0 t 0)\<^sup>2),
     score_out_grad = (\<lambda>x b j t c. if j = 0 \<and> t = 0 \<and> c = 0 then 2 * x b 0 0 0 else 0),
     frame_score_out_grad = (\<lambda>x b j t c. if j = 0 \<and> c = 0 then 2 * x b 0 t 0 else 0),
     disc_reg_losses = [1 / 100]\<rparr>"

definition toy_gen :: gen_model where
  "toy_gen = \<lparr>
     gen_outputs = (\<lambda>x x_mask z. mask_mult x x_mask),
     vae_z = (\<lambda>x x_mask z b t k. 0),
     gen_reg_losses = [1 / 100]\<rparr>"

definition toy_feed :: feed where
  "toy_feed = \<lparr>
     in_real_seq = ones_seq,
     in_seq_mask = ones_seq,
     in_latent_cond_input = (\<lambda>b k. 0),
     in_true_label = (\<lambda>b. 0),
     in_alpha = (\<lambda>b. 1 / 2),
     in_Qs = (\<lambda>s t. if s = t then 1 else 0)\<rparr>"

subsection \<open>Vectors to quaternions (\<^verbatim>\<open>utils/tfangles.py\<close>)\<close>














subsection \<open>The pose sub-encoder (\<^verbatim>\<open>_proc_gen_inputs\<close>, \<^verbatim>\<open>_proc_gen_outputs\<close>)\<close>

text \<open>
  The two methods build a graph of Keras layers; what the specification says about
  them is how the layers are wired and what shape comes out. So a Keras tensor is
  modelled by the name of the layer that produced it, its shape (without the batch
  axis) and the tensors that layer was called on. The weights of the layers play no
  part.
\<close>

datatype ktensor = KT (kname: string) (kshape: "nat list") (kinputs: "ktensor list")

text \<open>
  The layers, each with what it does to the shape. \<^verbatim>\<open>Reshape\<close> and \<^verbatim>\<open>Concatenate\<close>
  raise a \<^verbatim>\<open>ValueError\<close> at construction when the shapes do not fit (the result
  \<open>None\<close>). \<^verbatim>\<open>Conv1D\<close> and \<^verbatim>\<open>Conv2D\<close> are only used with stride 1 and
  padding \<^verbatim>\<open>same\<close>, where they replace the last dimension by the number of filters;
  \<^verbatim>\<open>Multiply\<close> and \<^verbatim>\<open>Lambda\<close> (the gate, elementwise) give the shape of their first
  argument.
\<close>

definition Permute :: "nat list \<Rightarrow> string \<Rightarrow> ktensor \<Rightarrow> ktensor" where
  "Permute dims name x = KT name (map (\<lambda>d. kshape x ! (d - 1)) dims) [x]"

definition Reshape :: "nat list \<Rightarrow> string \<Rightarrow> ktensor \<Rightarrow> ktensor option" where
  "Reshape target_shape name x =
     (if prod_list target_shape = prod_list (kshape x) then Some (KT name target_shape [x]) else None)"

definition Conv1D :: "nat \<Rightarrow> string \<Rightarrow> ktensor \<Rightarrow> ktensor" where
  "Conv1D filters name x = KT name (butlast (kshape x) @ [filters]) [x]"

definition Conv2D :: "nat \<Rightarrow> string \<Rightarrow> ktensor \<Rightarrow> ktensor" where
  "Conv2D filters name x = KT name (butlast (kshape x) @ [filters]) [x]"

definition Multiply :: "string \<Rightarrow> ktensor \<Rightarrow> ktensor \<Rightarrow> ktensor" where
  "Multiply name x y = KT name (kshape x) [x, y]"

definition Lambda3 :: "string \<Rightarrow> ktensor \<Rightarrow> ktensor \<Rightarrow> ktensor \<Rightarrow> ktensor" where
  "Lambda3 name x y z = KT name (kshape x) [x, y, z]"

definition Concatenate :: "string \<Rightarrow> ktensor \<Rightarrow> ktensor \<Rightarrow> ktensor option" where
  "Concatenate name x y =
     (if kshape x \<noteq> [] \<and> kshape y \<noteq> [] \<and> butlast (kshape x) = butlast (kshape y)
      then Some (KT name (butlast (kshape x) @ [last (kshape x) + last (kshape y)]) [x, y])
      else None)"

text \<open>\<^verbatim>\<open>'%d' % i\<close>: the decimal digits of a number.\<close>

fun str_nat :: "nat \<Rightarrow> string" where
  "str_nat n = (if n < 10 then [''0123456789'' ! n]
                else str_nat (n div 10) @ [''0123456789'' ! (n mod 10)])"

declare str_nat.simps [simp del]

text \<open>\<^verbatim>\<open>xs[k]\<close> on a Python list, for an index that is not negative.\<close>

definition py_index :: "'a list \<Rightarrow> nat \<Rightarrow> 'a option" where
  "py_index xs k = (if k < length xs then Some (xs ! k) else None)"

text \<open>The sizes set in \<^verbatim>\<open>__init__\<close>: all three are \<^verbatim>\<open>njoints * 3\<close>.\<close>

definition vae_original_dim :: "MotionGAN \<Rightarrow> nat" where
  "vae_original_dim M = njoints M * 3"

definition vae_intermediate_dim :: "MotionGAN \<Rightarrow> nat" where
  "vae_intermediate_dim M = vae_original_dim M"

definition vae_latent_dim :: "MotionGAN \<Rightarrow> nat" where
  "vae_latent_dim M = vae_original_dim M"

text \<open>
  What \<^verbatim>\<open>_proc_gen_inputs\<close> leaves on the object for \<^verbatim>\<open>_proc_gen_outputs\<close>.
\<close>

record vae_state =
  self_enc_layers :: "ktensor list"
  self_vae_z :: ktensor
  self_nblocks :: nat

text \<open>
  One pass of the encoder loop of \<^verbatim>\<open>_proc_gen_inputs\<close>:
  \<^verbatim>\<open>
  for i in range(3):
      pi = Conv1D(self.vae_intermediate_dim, 1, 1, activation='relu',
                  name='pose_vae/enc_%d_0' % i, **CONV1D_ARGS)(h)
      pi = Conv1D(self.vae_intermediate_dim, 1, 1, activation='relu',
                  name='pose_vae/enc_%d_1' % i, **CONV1D_ARGS)(pi)
      tau = Conv1D(self.vae_intermediate_dim, 1, 1, activation='sigmoid',
                   name='pose_vae/enc_%d_tau' % i, **CONV1D_ARGS)(h)
      h = Lambda(lambda args: (args[0] * (1 - args[2])) + (args[1] * args[2]),
                 name='pose_vae/enc_%d_attention' % i)([h, pi, tau])
      self.enc_layers.append(h)
  \<close>
  The \<^verbatim>\<open>Lambda\<close> layer is the gate: it mixes the block's input \<open>h\<close> and the
  transform \<open>pi'\<close> by \<open>tau\<close>.
\<close>

definition enc_block :: "MotionGAN \<Rightarrow> nat \<Rightarrow> ktensor \<Rightarrow> ktensor" where
  "enc_block M i h =
     (let pi' = Conv1D (vae_intermediate_dim M) (''pose_vae/enc_'' @ str_nat i @ ''_0'') h;
          pi' = Conv1D (vae_intermediate_dim M) (''pose_vae/enc_'' @ str_nat i @ ''_1'') pi';
          tau = Conv1D (vae_intermediate_dim M) (''pose_vae/enc_'' @ str_nat i @ ''_tau'') h
      in Lambda3 (''pose_vae/enc_'' @ str_nat i @ ''_attention'') h pi' tau)"

definition enc_loop :: "MotionGAN \<Rightarrow> nat list \<Rightarrow> ktensor \<times> ktensor list \<Rightarrow> ktensor \<times> ktensor list" where
  "enc_loop M indices = fold (\<lambda>i (h, enc_layers). let h = enc_block M i h in (h, enc_layers @ [h])) indices"

text \<open>
  The statements of \<^verbatim>\<open>_proc_gen_inputs\<close> under \<^verbatim>\<open>if self.use_pose_vae:\<close>, applied to
  the masked input \<^verbatim>\<open>x\<close>. (The other branch and joint unfolding use layers of the
  package \<^verbatim>\<open>layers\<close>, which is not among the sources.)
  \<^verbatim>\<open>
  x = Permute((2, 1, 3), name='pose_vae/perm_in')(x)
  x = Reshape((self.seq_len, self.njoints * 3), name='pose_vae/resh_in')(x)
  h = Conv1D(self.vae_intermediate_dim, 1, 1, name='pose_vae/enc_in', **CONV1D_ARGS)(x)
  self.enc_layers = []
  for i in range(3): ...
  z = Conv1D(self.vae_latent_dim, 1, 1, name='pose_vae/z_mean', **CONV1D_ARGS)(h)
  z_attention = Conv1D(self.vae_latent_dim, 1, 1, activation='sigmoid',
                       name='pose_vae/z_attention', **CONV1D_ARGS)(h)
  z = Multiply(name='pose_vae/vae_attention')([z, z_attention])
  self.vae_z = z
  x = Reshape((self.seq_len, self.vae_latent_dim, 1), name='generator/gen_reshape_in')(self.vae_z)
  self.nblocks = 4
  \<close>
  A model without a sequence length has no target shape to give to \<^verbatim>\<open>Reshape\<close>.
\<close>

definition pose_vae_encoder :: "MotionGAN \<Rightarrow> ktensor \<Rightarrow> (ktensor \<times> vae_state) option" where
  "pose_vae_encoder M x =
     (case seq_len M of None \<Rightarrow> None | Some T \<Rightarrow>
      (let x = Permute [2, 1, 3] ''pose_vae/perm_in'' x in
       case Reshape [T, njoints M * 3] ''pose_vae/resh_in'' x of None \<Rightarrow> None | Some x \<Rightarrow>
       (let h = Conv1D (vae_intermediate_dim M) ''pose_vae/enc_in'' x;
            (h, enc_layers) = enc_loop M [0..<3] (h, []);
            z = Conv1D (vae_latent_dim M) ''pose_vae/z_mean'' h;
            z_attention = Conv1D (vae_latent_dim M) ''pose_vae/z_attention'' h;
            z = Multiply ''pose_vae/vae_attention'' z z_attention
        in case Reshape [T, vae_latent_dim M, 1] ''generator/gen_reshape_in'' z of None \<Rightarrow> None
           | Some x \<Rightarrow> Some (x, \<lparr>self_enc_layers = enc_layers, self_vae_z = z, self_nblocks = 4\<rparr>))))"

text \<open>
  One pass of the decoder loop of \<^verbatim>\<open>_proc_gen_outputs\<close>:
  \<^verbatim>\<open>
  for i in range(3):
      pi = Concatenate(name='pose_vae/dec_%d_skip_cat' % i, axis=-1)([dec_h, self.enc_layers[2 - i]])
      pi = Conv1D(self.vae_intermediate_dim, 1, 1, activation='relu',
                  name='pose_vae/dec_%d_0' % i, **CONV1D_ARGS)(pi)
      pi = Conv1D(self.vae_intermediate_dim, 1, 1, activation='relu',
                  name='pose_vae/dec_%d_1' % i, **CONV1D_ARGS)(pi)
      tau = Conv1D(self.vae_intermediate_dim, 1, 1, activation='sigmoid',
                   name='pose_vae/dec_%d_tau' % i, **CONV1D_ARGS)(dec_h)
      dec_h = Lambda(lambda args: (args[0] * (1 - args[2])) + (args[1] * args[2]),
                     name='pose_vae/dec_%d_attention' % i)([dec_h, pi, tau])
  \<close>
\<close>

definition dec_block :: "MotionGAN \<Rightarrow> ktensor list \<Rightarrow> nat \<Rightarrow> ktensor \<Rightarrow> ktensor option" where
  "dec_block M enc_layers i dec_h =
     (case py_index enc_layers (2 - i) of None \<Rightarrow> None | Some skip \<Rightarrow>
      (case Concatenate (''pose_vae/dec_'' @ str_nat i @ ''_skip_cat'') dec_h skip of None \<Rightarrow> None
       | Some pi' \<Rightarrow>
         (let pi' = Conv1D (vae_intermediate_dim M) (''pose_vae/dec_'' @ str_nat i @ ''_0'') pi';
              pi' = Conv1D (vae_intermediate_dim M) (''pose_vae/dec_'' @ str_nat i @ ''_1'') pi';
              tau = Conv1D (vae_intermediate_dim M) (''pose_vae/dec_'' @ str_nat i @ ''_tau'') dec_h
          in Some (Lambda3 (''pose_vae/dec_'' @ str_nat i @ ''_attention'') dec_h pi' tau))))"

fun dec_loop :: "MotionGAN \<Rightarrow> ktensor list \<Rightarrow> nat list \<Rightarrow> ktensor \<Rightarrow> ktensor option" where
  "dec_loop M enc_layers [] dec_h = Some dec_h"
| "dec_loop M enc_layers (i # indices) dec_h =
     (case dec_block M enc_layers i dec_h of None \<Rightarrow> None
      | Some dec_h \<Rightarrow> dec_loop M enc_layers indices dec_h)"

text \<open>
  The statements of \<^verbatim>\<open>_proc_gen_outputs\<close> under \<^verbatim>\<open>if self.use_pose_vae:\<close>, applied to
  the output \<^verbatim>\<open>x\<close> of the generator body, and the list it returns:
  \<^verbatim>\<open>
  x = Conv2D(1, 3, 1, name='generator/vae_merge', **CONV2D_ARGS)(x)
  self.vae_gen_z = Reshape((self.seq_len, self.vae_latent_dim), name='generator/vae_reshape')(x)
  dec_h = Conv1D(self.vae_intermediate_dim, 1, 1, name='pose_vae/dec_in', **CONV1D_ARGS)(self.vae_gen_z)
  for i in range(3): ...
  dec_x = Conv1D(self.vae_original_dim, 1, 1, name='pose_vae/dec_out', **CONV1D_ARGS)(dec_h)
  dec_x = Reshape((self.seq_len, self.njoints, 3), name='pose_vae/resh_out')(dec_x)
  dec_x = Permute((2, 1, 3), name='pose_vae/perm_out')(dec_x)
  vae_gen_x = dec_x
  x = Reshape((self.seq_len, self.njoints, 3), name='generator/coords_reshape')(vae_gen_x)
  x = Permute((2, 1, 3), name='generator/coords_permute')(x)  # joints, time, coords
  output_tensors = [x]
  \<close>
\<close>

definition pose_vae_decoder :: "MotionGAN \<Rightarrow> vae_state \<Rightarrow> ktensor \<Rightarrow> ktensor list option" where
  "pose_vae_decoder M self x =
     (case seq_len M of None \<Rightarrow> None | Some T \<Rightarrow>
      (let x = Conv2D 1 ''generator/vae_merge'' x in
       case Reshape [T, vae_latent_dim M] ''generator/vae_reshape'' x of None \<Rightarrow> None
       | Some vae_gen_z \<Rightarrow>
       (let dec_h = Conv1D (vae_intermediate_dim M) ''pose_vae/dec_in'' vae_gen_z in
        case dec_loop M (self_enc_layers self) [0..<3] dec_h of None \<Rightarrow> None | Some dec_h \<Rightarrow>
        (let dec_x = Conv1D (vae_original_dim M) ''pose_vae/dec_out'' dec_h in
         case Reshape [T, njoints M, 3] ''pose_vae/resh_out'' dec_x of None \<Rightarrow> None | Some dec_x \<Rightarrow>
         (let dec_x = Permute [2, 1, 3] ''pose_vae/perm_out'' dec_x;
              vae_gen_x = dec_x
          in case Reshape [T, njoints M, 3] ''generator/coords_reshape'' vae_gen_x of None \<Rightarrow> None
             | Some x \<Rightarrow>
             (let x = Permute [2, 1, 3] ''generator/coords_permute'' x;
                  output_tensors = [x]
              in Some output_tensors))))))"

text \<open>
  Walking back from a tensor: \<open>follow [k1, k2, ...] t\<close> is input \<open>k1\<close> of the layer
  that produced \<open>t\<close>, then input \<open>k2\<close> of the layer that produced that, and so on.
\<close>

fun follow :: "nat list \<Rightarrow> ktensor \<Rightarrow> ktensor option" where
  "follow [] t = Some t"
| "follow (k # ks) t = (if k < length (kinputs t) then follow ks (kinputs t ! k) else None)"

text \<open>A masked input of 4 joints and 8 frames, and a generator body of one layer
  that keeps rows and columns and has 32 filters.\<close>

definition masked_input_4_8 :: ktensor where
  "masked_input_4_8 =
     Multiply ''generator/mask_mult'' (KT ''real_seq'' [4, 8, 3] []) (KT ''seq_mask'' [4, 8, 1] [])"

definition toy_gen_body :: "ktensor \<Rightarrow> ktensor" where
  "toy_gen_body x = Conv2D 32 ''generator/relu_out'' x"

text \<open>
  The generator as \<^verbatim>\<open>__init__\<close> puts it together,
  \<^verbatim>\<open>
  x = self._proc_gen_inputs(self.gen_inputs)
  self.gen_outputs = self._proc_gen_outputs(self.generator(x))
  \<close>
  for a model with the pose sub-encoder; the body \<^verbatim>\<open>self.generator\<close>, which the
  subclasses define, is an argument.
\<close>

definition gen_outputs_pose_vae :: "MotionGAN \<Rightarrow> (ktensor \<Rightarrow> ktensor) \<Rightarrow> ktensor \<Rightarrow> ktensor list option" where
  "gen_outputs_pose_vae M generator x =
     (case pose_vae_encoder M x of None \<Rightarrow> None
      | Some (x, self) \<Rightarrow> pose_vae_decoder M self (generator x))"

text \<open>
  Where the skip connections are in the graph of an output tensor. Five layers lead
  from the output back to the last gate of the decoder (\<^verbatim>\<open>coords_permute\<close>,
  \<^verbatim>\<open>coords_reshape\<close>, \<^verbatim>\<open>perm_out\<close>, \<^verbatim>\<open>resh_out\<close>, \<^verbatim>\<open>dec_out\<close>), the first input
  of a gate is the gate of the block before, and the second input of a gate is the
  transform, two \<^verbatim>\<open>Conv1D\<close> layers after the concatenation. \<open>dec_skip_cat out i\<close> is
  the concatenation of decoder block \<open>i\<close>, \<open>skip_of out i\<close> its second input.
\<close>

definition dec_skip_cat :: "ktensor \<Rightarrow> nat \<Rightarrow> ktensor option" where
  "dec_skip_cat out i = follow (replicate (7 - i) 0 @ [1, 0, 0]) out"

definition skip_of :: "ktensor \<Rightarrow> nat \<Rightarrow> ktensor option" where
  "skip_of out i = (case dec_skip_cat out i of None \<Rightarrow> None | Some cat \<Rightarrow> py_index (kinputs cat) 1)"

text \<open>The model of the end-to-end scenario, 4 joints and 8 frames, with the pose
  sub-encoder, and the skip tensors of its generator.\<close>

definition vae_model_4_8 :: MotionGAN where
  "vae_model_4_8 =
     MotionGAN_init (base_config\<lparr>cfg_njoints := 4, cfg_pick_num := 8, cfg_use_pose_vae := True\<rparr>)"

definition example_skip :: "nat \<Rightarrow> ktensor option" where
  "example_skip i =
     (case gen_outputs_pose_vae vae_model_4_8 toy_gen_body masked_input_4_8 of
        Some [out] \<Rightarrow> skip_of out i
      | _ \<Rightarrow> None)"

text \<open>
  A generator that answers one half everywhere, and the toy feed with the
  interpolation coefficients all 1 and all 0.
\<close>

definition half_gen :: gen_model where
  "half_gen = \<lparr>
     gen_outputs = (\<lambda>x x_mask z. half_seq),
     vae_z = (\<lambda>x x_mask z b t k. 0),
     gen_reg_losses = []\<rparr>"

definition one_by_one_config :: config where
  "one_by_one_config = base_config\<lparr>cfg_batch_size := 1, cfg_njoints := 1, cfg_pick_num := 1\<rparr>"

definition feed_alpha_one :: feed where
  "feed_alpha_one = toy_feed\<lparr>in_alpha := (\<lambda>b. 1)\<rparr>"

definition feed_alpha_zero :: feed where
  "feed_alpha_zero = toy_feed\<lparr>in_alpha := (\<lambda>b. 0)\<rparr>"

section \<open>Verified properties\<close>

subsection \<open>Naming scopes\<close>

text \<open>
  Claim C10. For every Scoping object, scope string and prior name stack, the body of
  \<^verbatim>\<open>with self.name_scope(scope)\<close> is run with the prior stack extended by the
  scope (the scope alone when the prior stack is empty, otherwise prior stack,
  \<^verbatim>\<open>/\<close>, scope), both as the yielded value and as the object's name stack; and when
  the body is left, by completing or by raising, whatever it did to the object, the
  name stack is again what it was before entry.
\<close>

theorem name_scope_yields_and_restores:
  fixes body :: "('e, 'a) with_body"
  shows "fst (name_scope self scope body) =
           fst (body (if name_stack self = '''' then scope else name_stack self @ ''/'' @ scope)
                     (self\<lparr>name_stack :=
                        (if name_stack self = '''' then scope else name_stack self @ ''/'' @ scope)\<rparr>))
         \<and> name_stack (snd (name_scope self scope body)) = name_stack self"
  by (simp add: name_scope_def Let_def split: prod.split)

text \<open>
  The nested use of the module's own self-test: \<^verbatim>\<open>foo\<close>, inside it \<^verbatim>\<open>bar\<close>, whose body
  raises after reading the scope. The inner body sees \<^verbatim>\<open>foo/bar\<close>, the exception
  passes through both managers, and the stack is empty again at the end.
\<close>

theorem name_scope_yields_and_restores_witness:
  "name_scope Scoping_init ''foo''
     (\<lambda>foo_scope s. name_scope s ''bar'' (\<lambda>y s'. (Inl (y, name_stack s'), s'\<lparr>name_stack := ''junk''\<rparr>)))
   = (Inl (''foo/bar'', ''foo/bar'') :: (string \<times> string) + unit, Scoping_init)"
  using name_scope_yields_and_restores
    [of Scoping_init "''foo''"
        "\<lambda>foo_scope s. name_scope s ''bar''
            (\<lambda>y s'. (Inl (y, name_stack s') :: (string \<times> string) + unit, s'\<lparr>name_stack := ''junk''\<rparr>))"]
  by (simp add: name_scope_def Scoping_init_def)

subsection \<open>Auxiliary facts\<close>

lemma K_epsilon_pos: "0 < K_epsilon"
  by (simp add: K_epsilon_def)

lemma sum_upto2: "(\<Sum>i<(2::nat). f i) = f 0 + (f 1 :: real)"
  by (simp add: numeral_2_eq_2)

lemma sum_upto3: "(\<Sum>i<(3::nat). f i) = f 0 + f 1 + (f 2 :: real)"
  by (simp add: numeral_3_eq_3 numeral_2_eq_2)

lemma frames_tiny_model: "frames (tiny_model B J (Suc T)) = Suc T"
  by (simp add: tiny_model_def MotionGAN_init_def frames_def)

lemma njoints_tiny_model: "njoints (tiny_model B J T) = J"
  by (simp add: tiny_model_def MotionGAN_init_def)

lemma batch_size_tiny_model: "batch_size (tiny_model B J T) = B"
  by (simp add: tiny_model_def MotionGAN_init_def)

lemma zero_frames_of_zero_frame:
  assumes "\<forall>j<njoints M. \<forall>c<3. x b j t c = 0"
  shows "zero_frames M x b t = K_epsilon"
  using assms by (simp add: zero_frames_def zero_sum_def)

lemma weighted_sum_split:
  fixes f w :: "nat \<Rightarrow> real"
  assumes "t < T" and "w t = e"
  shows "(\<Sum>s<T. f s * w s) = e * f t + (\<Sum>s\<in>{..<T} - {t}. f s * w s)"
proof -
  have "(\<Sum>s<T. f s * w s) = f t * w t + (\<Sum>s\<in>{..<T} - {t}. f s * w s)"
    using assms(1) by (simp add: sum.remove)
  then show ?thesis using assms(2) by (simp add: mult.commute)
qed

subsection \<open>Masking\<close>

text \<open>
  Claim C7. For every pose tensor and every mask, at every position where the mask
  entry is 0 or 1, multiplying by the mask twice gives the same entry as multiplying
  once: \<open>mask * (mask * pose) = mask * pose\<close>, elementwise.
\<close>

theorem mask_mult_idempotent:
  "x_mask b j t 0 = 0 \<or> x_mask b j t 0 = 1 \<Longrightarrow>
   mask_mult (mask_mult pose x_mask) x_mask b j t c = mask_mult pose x_mask b j t c"
  by (auto simp: mask_mult_def)

theorem mask_mult_idempotent_witness:
  "first_frame_mask 0 0 1 0 = 0
   \<and> mask_mult (mask_mult half_seq first_frame_mask) first_frame_mask 0 0 1 2
       = mask_mult half_seq first_frame_mask 0 0 1 2
   \<and> first_frame_mask 0 0 0 0 = 1
   \<and> mask_mult (mask_mult half_seq first_frame_mask) first_frame_mask 0 0 0 2 = 1 / 2"
  using mask_mult_idempotent [where x_mask = first_frame_mask and b = 0 and j = 0 and t = 1
      and pose = half_seq and c = 2]
    mask_mult_idempotent [where x_mask = first_frame_mask and b = 0 and j = 0 and t = 0
      and pose = half_seq and c = 2]
  by (simp add: first_frame_mask_def mask_mult_def half_seq_def)

subsection \<open>The distance-matrix operator\<close>

text \<open>
  Claim C8, as the code has it. For every input and every frame the distance matrix is
  symmetric, \<open>D[i,j] = D[j,i]\<close>, every entry is non-negative, and every diagonal
  entry is exactly the square root of the epsilon added inside the square root,
  \<open>D[i,i] = sqrt K_epsilon\<close>: its square, not the entry itself, is epsilon.
\<close>

theorem edm_symmetric_nonneg_diagonal:
  "edm x b i j t = edm x b j i t \<and> 0 \<le> edm x b i j t \<and> edm x b i i t = sqrt K_epsilon"
proof -
  have "(\<Sum>c<3. (x b j t c - x b i t c)\<^sup>2) = (\<Sum>c<3. (x b i t c - x b j t c)\<^sup>2)"
    by (simp add: power2_commute)
  moreover have "0 \<le> (\<Sum>c<3. (x b j t c - x b i t c)\<^sup>2)"
    by (simp add: sum_nonneg)
  ultimately show ?thesis
    using K_epsilon_pos by (simp add: edm_def)
qed

text \<open>
  As a tolerance on the entry, the claim fails: the diagonal of the distance matrix of
  the all-zero sequence is \<open>sqrt 1e-7\<close>, about \<open>3.2e-4\<close>, which is more than
  \<open>1e-7\<close>.
\<close>

theorem edm_diagonal_exceeds_epsilon:
  "\<not> \<bar>edm zeros_seq 0 0 0 0 - 0\<bar> \<le> K_epsilon"
proof -
  have "K_epsilon\<^sup>2 < K_epsilon"
    by (simp add: K_epsilon_def power2_eq_square)
  then have "K_epsilon < sqrt K_epsilon"
    by (rule real_less_rsqrt)
  moreover have "edm zeros_seq 0 0 0 0 = sqrt K_epsilon"
    by (simp add: edm_def zeros_seq_def)
  ultimately show ?thesis by simp
qed

subsection \<open>The frame-validity weights\<close>

text \<open>
  Claim C1, as the code has it. A frame \<open>t\<close> of a real sequence whose coordinates are
  all zero, over every joint and channel, has the frame weight \<open>K_epsilon\<close> exactly
  (\<open>1e-7\<close>, not zero), and it enters every frame-weighted term with that factor: the
  reconstruction loss, the distance-matrix reconstruction loss, the frame-level
  adversarial losses and the frame-level gradient norm are each \<open>K_epsilon\<close> times the
  unweighted term of frame \<open>t\<close> plus the weighted terms of the other frames.
\<close>

theorem zero_frame_weight_is_epsilon:
  assumes "t < frames M" and "\<forall>j<njoints M. \<forall>c<3. x b j t c = 0"
  shows "zero_frames M x b t = K_epsilon
    \<and> loss_rec M x x_mask y b =
        K_epsilon * rec_frame M x x_mask y b t
        + (\<Sum>s\<in>{..<frames M} - {t}. rec_frame M x x_mask y b s * zero_frames M x b s)
    \<and> loss_rec_edm M x x_mask y b =
        K_epsilon * rec_edm_frame M x x_mask y b t
        + (\<Sum>s\<in>{..<frames M} - {t}. rec_edm_frame M x x_mask y b s * zero_frames M x b s)
    \<and> frame_loss M D x z b =
        K_epsilon * frame_score_out D z b t 0
        + (\<Sum>s\<in>{..<frames M} - {t}. frame_score_out D z b s 0 * zero_frames M x b s)
    \<and> frame_norm_grad_mixed M D x z b =
        sqrt (K_epsilon * frame_grad_sq M D z b t
              + (\<Sum>s\<in>{..<frames M} - {t}. frame_grad_sq M D z b s * zero_frames M x b s))"
proof -
  have w: "zero_frames M x b t = K_epsilon"
    using assms(2) by (rule zero_frames_of_zero_frame)
  note split = weighted_sum_split [where w = "zero_frames M x b" and e = K_epsilon, OF assms(1) w]
  have "loss_rec M x x_mask y b =
        K_epsilon * rec_frame M x x_mask y b t
        + (\<Sum>s\<in>{..<frames M} - {t}. rec_frame M x x_mask y b s * zero_frames M x b s)"
    unfolding loss_rec_def by (rule split)
  moreover have "loss_rec_edm M x x_mask y b =
        K_epsilon * rec_edm_frame M x x_mask y b t
        + (\<Sum>s\<in>{..<frames M} - {t}. rec_edm_frame M x x_mask y b s * zero_frames M x b s)"
    unfolding loss_rec_edm_def by (rule split)
  moreover have "frame_loss M D x z b =
        K_epsilon * frame_score_out D z b t 0
        + (\<Sum>s\<in>{..<frames M} - {t}. frame_score_out D z b s 0 * zero_frames M x b s)"
    unfolding frame_loss_def by (rule split [where f = "\<lambda>s. frame_score_out D z b s 0"])
  moreover have "frame_norm_grad_mixed M D x z b =
        sqrt (K_epsilon * frame_grad_sq M D z b t
              + (\<Sum>s\<in>{..<frames M} - {t}. frame_grad_sq M D z b s * zero_frames M x b s))"
    unfolding frame_norm_grad_mixed_def by (simp only: split)
  ultimately show ?thesis using w by simp
qed

text \<open>
  A sequence of two frames, the second one padding: the padding frame has weight
  \<open>K_epsilon\<close>, and against a generator output of one half everywhere it adds
  \<open>K_epsilon / 4\<close> to the reconstruction loss.
\<close>

theorem zero_frame_weight_is_epsilon_witness:
  "padded_seq 0 0 1 0 = 0 \<and> padded_seq 0 0 1 1 = 0 \<and> padded_seq 0 0 1 2 = 0
   \<and> zero_frames (tiny_model 1 1 2) padded_seq 0 1 = K_epsilon
   \<and> rec_frame (tiny_model 1 1 2) padded_seq ones_seq half_seq 0 1 = 1 / 4
   \<and> loss_rec (tiny_model 1 1 2) padded_seq ones_seq half_seq 0
       = K_epsilon * (1 / 4) + (1 / 4) * (1 + K_epsilon)"
proof -
  have fr: "frames (tiny_model 1 1 2) = 2"
    using frames_tiny_model [of 1 1 1] by (simp add: numeral_2_eq_2)
  have rest: "{..<2::nat} - {1} = {0}"
    by auto
  have r0: "rec_frame (tiny_model 1 1 2) padded_seq ones_seq half_seq 0 0 = 1 / 4"
    by (simp add: rec_frame_def njoints_tiny_model K_mean_def sum_upto3 mask_mult_def
        padded_seq_def ones_seq_def half_seq_def power2_eq_square)
  have r1: "rec_frame (tiny_model 1 1 2) padded_seq ones_seq half_seq 0 1 = 1 / 4"
    by (simp add: rec_frame_def njoints_tiny_model K_mean_def sum_upto3 mask_mult_def
        padded_seq_def ones_seq_def half_seq_def power2_eq_square)
  have w0: "zero_frames (tiny_model 1 1 2) padded_seq 0 0 = 1 + K_epsilon"
    by (simp add: zero_frames_def zero_sum_def njoints_tiny_model sum_upto3 padded_seq_def)
  have z: "\<forall>j<njoints (tiny_model 1 1 2). \<forall>c<3. padded_seq 0 j 1 c = 0"
    by (simp add: padded_seq_def)
  have t: "1 < frames (tiny_model 1 1 2)"
    unfolding fr by simp
  have p: "padded_seq 0 0 1 0 = 0" "padded_seq 0 0 1 1 = 0" "padded_seq 0 0 1 2 = 0"
    by (simp_all add: padded_seq_def)
  show ?thesis
    using zero_frame_weight_is_epsilon [where M = "tiny_model 1 1 2" and x = padded_seq and b = 0
        and t = 1 and x_mask = ones_seq and y = half_seq and D = toy_disc and z = ones_seq, OF t z]
    unfolding fr rest by (simp add: r0 r1 w0 p del: One_nat_def)
qed

text \<open>
  The claim as stated fails on a one-frame sequence that is all zero: the weight of its
  frame is \<open>1e-7\<close>, and against a generator output of ones the reconstruction loss,
  which is that frame's whole contribution, is \<open>1e-7\<close> as well.
\<close>

theorem zero_frame_contributes_counterexample:
  "zeros_seq 0 0 0 0 = 0 \<and> zeros_seq 0 0 0 1 = 0 \<and> zeros_seq 0 0 0 2 = 0
   \<and> zero_frames (tiny_model 1 1 1) zeros_seq 0 0 = 1 / 10000000
   \<and> loss_rec (tiny_model 1 1 1) zeros_seq ones_seq ones_seq 0 = 1 / 10000000"
  by (simp add: zero_frames_def zero_sum_def loss_rec_def rec_frame_def mask_mult_def K_mean_def
      zeros_seq_def ones_seq_def K_epsilon_def tiny_model_def MotionGAN_init_def frames_def
      base_config_def)

subsection \<open>The shape-preservation loss\<close>

lemma shape_mask_eq: "shape_mask i j = (if j = Suc i then 1 else 0)"
  by (auto simp: shape_mask_def np_triu_def np_ones_def)

lemma K_mean_zero: "K_mean n (\<lambda>t. 0) = 0"
  by (simp add: K_mean_def)

lemma loss_shape_consecutive_pairs:
  "loss_shape M x y b =
       (\<Sum>i<njoints M - 1.
          K_mean (frames M)
            (\<lambda>t. (K_mean (frames M) (\<lambda>s. edm x b i (Suc i) s) - edm y b i (Suc i) t)\<^sup>2))"
proof -
  let ?f = "\<lambda>i. K_mean (frames M)
              (\<lambda>t. (K_mean (frames M) (\<lambda>s. edm x b i (Suc i) s) - edm y b i (Suc i) t)\<^sup>2)"
  have inner: "(\<Sum>j<njoints M. K_mean (frames M) (\<lambda>t. (real_shape M x b i j - gen_shape y b i j t)\<^sup>2))
       = (if Suc i < njoints M then ?f i else 0)" for i
  proof -
    have "(\<Sum>j<njoints M. K_mean (frames M) (\<lambda>t. (real_shape M x b i j - gen_shape y b i j t)\<^sup>2))
        = (\<Sum>j<njoints M. if j = Suc i then ?f i else 0)"
      by (intro sum.cong refl) (simp add: real_shape_def gen_shape_def shape_mask_eq K_mean_zero)
    also have "\<dots> = (if Suc i < njoints M then ?f i else 0)"
      by simp
    finally show ?thesis .
  qed
  have "loss_shape M x y b = (\<Sum>i<njoints M. if Suc i < njoints M then ?f i else 0)"
    unfolding loss_shape_def by (simp only: inner)
  also have "\<dots> = (\<Sum>i\<in>{..<njoints M} \<inter> {i. Suc i < njoints M}. ?f i)"
    by (simp add: sum.inter_restrict)
  also have "{..<njoints M} \<inter> {i. Suc i < njoints M} = {..<njoints M - 1}"
    by auto
  finally show ?thesis .
qed

text \<open>
  Claim C4, as the code has it. The mask \<^verbatim>\<open>np.triu(mask, 1) - np.triu(mask, 2)\<close> is
  one exactly on the first superdiagonal, \<open>j = i + 1\<close>, and zero elsewhere. So the
  comparison of the time-averaged real distance matrix with the generated per-frame
  distance matrix counts, once each, the pairs of joints with consecutive indices
  \<open>(i, i + 1)\<close>; the diagonal and every other pair contribute nothing.
\<close>

theorem loss_shape_first_superdiagonal:
  "shape_mask i j = (if j = Suc i then 1 else 0)
   \<and> loss_shape M x y b =
       (\<Sum>i<njoints M - 1.
          K_mean (frames M)
            (\<lambda>t. (K_mean (frames M) (\<lambda>s. edm x b i (Suc i) s) - edm y b i (Suc i) t)\<^sup>2))"
  using shape_mask_eq [of i j] loss_shape_consecutive_pairs [of M x y b] by (rule conjI)

text \<open>
  Three joints, one frame: a straight skeleton against one bent at the middle joint.
  The distances of the pairs \<open>(0,1)\<close> and \<open>(1,2)\<close> agree, the distance of the pair
  \<open>(0,2)\<close> does not, and the loss is zero: the pair \<open>(0,2)\<close> of distinct joints
  is not counted.
\<close>

theorem loss_shape_skips_pair_counterexample:
  "shape_mask 0 2 = 0
   \<and> loss_shape (tiny_model 1 3 1) line_seq bent_seq 0 = 0
   \<and> edm line_seq 0 0 2 0 \<noteq> edm bent_seq 0 0 2 0"
proof -
  have fr: "frames (tiny_model 1 3 1) = 1"
    using frames_tiny_model [of 1 3 0] by simp
  have e: "edm line_seq 0 0 (Suc 0) 0 = sqrt (1 + K_epsilon)"
          "edm line_seq 0 (Suc 0) (Suc (Suc 0)) 0 = sqrt (1 + K_epsilon)"
          "edm bent_seq 0 0 (Suc 0) 0 = sqrt (1 + K_epsilon)"
          "edm bent_seq 0 (Suc 0) (Suc (Suc 0)) 0 = sqrt (1 + K_epsilon)"
    by (simp_all add: edm_def line_seq_def bent_seq_def sum_upto3)
  have "loss_shape (tiny_model 1 3 1) line_seq bent_seq 0 = 0"
    unfolding loss_shape_consecutive_pairs njoints_tiny_model fr
    by (simp add: K_mean_def sum_upto2 e)
  moreover have "edm line_seq 0 0 2 0 \<noteq> edm bent_seq 0 0 2 0"
    by (simp add: edm_def line_seq_def bent_seq_def sum_upto3)
  ultimately show ?thesis
    by (simp add: shape_mask_eq)
qed

text \<open>
  Claim C3, as the code has it. The loss averages its first argument over time and
  compares the average with every frame of its second argument, so the two arguments
  do not play the same role. Exchanging them leaves the unweighted value unchanged
  when, in both sequences, the distance between joints of consecutive indices does
  not change over the frames (and the sequence has at least one frame).
\<close>

theorem loss_shape_swap_static:
  assumes T: "0 < frames M"
    and r: "\<forall>i t. Suc i < njoints M \<and> t < frames M \<longrightarrow> edm x b i (Suc i) t = edm x b i (Suc i) 0"
    and g: "\<forall>i t. Suc i < njoints M \<and> t < frames M \<longrightarrow> edm y b i (Suc i) t = edm y b i (Suc i) 0"
  shows "loss_shape M x y b = loss_shape M y x b"
proof -
  have pair_eq: "K_mean (frames M) (\<lambda>t. (real_shape M x b i j - gen_shape y b i j t)\<^sup>2)
            = K_mean (frames M) (\<lambda>t. (real_shape M y b i j - gen_shape x b i j t)\<^sup>2)"
    if "j < njoints M" for i j
  proof (cases "j = Suc i")
    case False
    then show ?thesis
      by (simp add: real_shape_def gen_shape_def shape_mask_eq)
  next
    case True
    have cx: "edm x b i (Suc i) t = edm x b i (Suc i) 0" if "t \<in> {..<frames M}" for t
      using r that \<open>j < njoints M\<close> True by blast
    have cy: "edm y b i (Suc i) t = edm y b i (Suc i) 0" if "t \<in> {..<frames M}" for t
      using g that \<open>j < njoints M\<close> True by blast
    have n: "real (frames M) \<noteq> 0"
      using T by simp
    have "(\<Sum>t<frames M. edm x b i (Suc i) t) = (\<Sum>t<frames M. edm x b i (Suc i) 0)"
      by (rule sum.cong [OF refl cx])
    then have mx: "K_mean (frames M) (\<lambda>t. edm x b i (Suc i) t) = edm x b i (Suc i) 0"
      using n by (simp add: K_mean_def)
    have "(\<Sum>t<frames M. edm y b i (Suc i) t) = (\<Sum>t<frames M. edm y b i (Suc i) 0)"
      by (rule sum.cong [OF refl cy])
    then have my: "K_mean (frames M) (\<lambda>t. edm y b i (Suc i) t) = edm y b i (Suc i) 0"
      using n by (simp add: K_mean_def)
    have l: "(\<Sum>t<frames M. (edm x b i (Suc i) 0 - edm y b i (Suc i) t)\<^sup>2)
           = (\<Sum>t<frames M. (edm x b i (Suc i) 0 - edm y b i (Suc i) 0)\<^sup>2)"
    proof (rule sum.cong [OF refl])
      fix t assume "t \<in> {..<frames M}"
      then have "edm y b i (Suc i) t = edm y b i (Suc i) 0" by (rule cy)
      then show "(edm x b i (Suc i) 0 - edm y b i (Suc i) t)\<^sup>2
               = (edm x b i (Suc i) 0 - edm y b i (Suc i) 0)\<^sup>2" by (simp only:)
    qed
    have r': "(\<Sum>t<frames M. (edm y b i (Suc i) 0 - edm x b i (Suc i) t)\<^sup>2)
           = (\<Sum>t<frames M. (edm x b i (Suc i) 0 - edm y b i (Suc i) 0)\<^sup>2)"
    proof (rule sum.cong [OF refl])
      fix t assume "t \<in> {..<frames M}"
      then have "edm x b i (Suc i) t = edm x b i (Suc i) 0" by (rule cx)
      then show "(edm y b i (Suc i) 0 - edm x b i (Suc i) t)\<^sup>2
               = (edm x b i (Suc i) 0 - edm y b i (Suc i) 0)\<^sup>2"
        by (simp only: power2_commute [of "edm y b i (Suc i) 0"])
    qed
    have rs: "real_shape M x b i j = edm x b i (Suc i) 0" "real_shape M y b i j = edm y b i (Suc i) 0"
      by (simp_all add: True real_shape_def shape_mask_eq mx my)
    have gs: "gen_shape y b i j t = edm y b i (Suc i) t" "gen_shape x b i j t = edm x b i (Suc i) t" for t
      by (simp_all add: True gen_shape_def shape_mask_eq)
    have "K_mean (frames M) (\<lambda>t. (real_shape M x b i j - gen_shape y b i j t)\<^sup>2)
        = (\<Sum>t<frames M. (edm x b i (Suc i) 0 - edm y b i (Suc i) t)\<^sup>2) / real (frames M)"
      by (simp add: rs gs K_mean_def)
    moreover have "K_mean (frames M) (\<lambda>t. (real_shape M y b i j - gen_shape x b i j t)\<^sup>2)
        = (\<Sum>t<frames M. (edm y b i (Suc i) 0 - edm x b i (Suc i) t)\<^sup>2) / real (frames M)"
      by (simp add: rs gs K_mean_def)
    ultimately show ?thesis
      by (simp only: l r')
  qed
  show ?thesis
    unfolding loss_shape_def by (intro sum.cong refl pair_eq) simp
qed

theorem loss_shape_swap_static_witness:
  "loss_shape (tiny_model 1 3 2) line_seq bent_seq 0 = loss_shape (tiny_model 1 3 2) bent_seq line_seq 0"
proof -
  have fr: "frames (tiny_model 1 3 2) = 2"
    using frames_tiny_model [of 1 3 1] by (simp add: numeral_2_eq_2)
  have T: "0 < frames (tiny_model 1 3 2)"
    unfolding fr by simp
  have r: "\<forall>i t. Suc i < njoints (tiny_model 1 3 2) \<and> t < frames (tiny_model 1 3 2)
             \<longrightarrow> edm line_seq 0 i (Suc i) t = edm line_seq 0 i (Suc i) 0"
    by (simp add: edm_def line_seq_def)
  have g: "\<forall>i t. Suc i < njoints (tiny_model 1 3 2) \<and> t < frames (tiny_model 1 3 2)
             \<longrightarrow> edm bent_seq 0 i (Suc i) t = edm bent_seq 0 i (Suc i) 0"
    by (simp add: edm_def bent_seq_def)
  show ?thesis
    using loss_shape_swap_static [OF T r g] .
qed

text \<open>
  Without that condition the claim fails. Two joints, two frames: in the first
  sequence the distance grows from frame to frame, in the second both joints rest at
  the origin. With \<open>A\<close>, \<open>B\<close> the two distances of the first sequence and \<open>C\<close> the
  distance of the second, one order gives \<open>((A + B) / 2 - C)\<^sup>2\<close>, the other
  \<open>((C - A)\<^sup>2 + (C - B)\<^sup>2) / 2\<close>, which is larger by \<open>(A - B)\<^sup>2 / 4\<close>.
\<close>

theorem loss_shape_swap_counterexample:
  "loss_shape (tiny_model 1 2 2) stretch_seq zeros_seq 0
     \<noteq> loss_shape (tiny_model 1 2 2) zeros_seq stretch_seq 0"
proof -
  define A where "A = sqrt (1 + K_epsilon)"
  define B where "B = sqrt (4 + K_epsilon)"
  define C where "C = sqrt K_epsilon"
  have fr: "frames (tiny_model 1 2 2) = 2"
    using frames_tiny_model [of 1 2 1] by (simp add: numeral_2_eq_2)
  have e0: "edm stretch_seq 0 0 (Suc 0) 0 = A" "edm stretch_seq 0 0 (Suc 0) (Suc 0) = B"
    by (simp_all add: edm_def stretch_seq_def sum_upto3 A_def B_def)
  have e1: "edm zeros_seq 0 0 (Suc 0) t = C" for t
    by (simp add: edm_def zeros_seq_def C_def)
  have L1: "loss_shape (tiny_model 1 2 2) stretch_seq zeros_seq 0 = ((A + B) / 2 - C)\<^sup>2"
    unfolding loss_shape_consecutive_pairs njoints_tiny_model fr
    by (simp add: K_mean_def sum_upto2 e0 e1)
  have L2: "loss_shape (tiny_model 1 2 2) zeros_seq stretch_seq 0 = ((C - A)\<^sup>2 + (C - B)\<^sup>2) / 2"
    unfolding loss_shape_consecutive_pairs njoints_tiny_model fr
    by (simp add: K_mean_def sum_upto2 e0 e1)
  have id: "((C - A)\<^sup>2 + (C - B)\<^sup>2) / 2 - ((A + B) / 2 - C)\<^sup>2 = (A - B)\<^sup>2 / 4"
    by (simp add: power2_eq_square field_simps)
  have "A \<noteq> B"
    by (simp add: A_def B_def)
  then have "0 < (A - B)\<^sup>2 / 4"
    by simp
  with id have "((A + B) / 2 - C)\<^sup>2 < ((C - A)\<^sup>2 + (C - B)\<^sup>2) / 2"
    by linarith
  then show ?thesis
    unfolding L1 L2 by linarith
qed

subsection \<open>Ordered dictionaries\<close>

lemma od_keys_Nil: "od_keys [] = []"
  by (simp add: od_keys_def)

lemma od_keys_Cons: "od_keys ((k, v) # d) = k # od_keys d"
  by (simp add: od_keys_def)

lemma od_set_fresh: "k \<notin> set (od_keys d) \<Longrightarrow> od_set d k v = d @ [(k, v)]"
  by (induction d) (auto simp: od_keys_def)

lemma od_keys_set_fresh: "k \<notin> set (od_keys d) \<Longrightarrow> od_keys (od_set d k v) = od_keys d @ [k]"
  by (simp add: od_set_fresh) (simp add: od_keys_def)

lemma od_keys_set_when:
  "k \<notin> set (od_keys d) \<Longrightarrow> od_keys (od_set_when c d k v) = od_keys d @ (if c then [k] else [])"
  by (simp add: od_set_when_def od_keys_set_fresh)

lemma set_if_single: "set (if c then [k] else []) = (if c then {k} else {})"
  by simp

lemma mem_if_single: "x \<in> (if c then {k} else {}) \<longleftrightarrow> c \<and> x = k"
  by simp

lemma length_od_values: "length (od_values d) = length (od_keys d)"
  by (simp add: od_values_def od_keys_def)

lemma foldl_od_set_distinct:
  "distinct (map fst (d @ ps)) \<Longrightarrow> foldl (\<lambda>d (k, v). od_set d k v) d ps = d @ ps"
proof (induction ps arbitrary: d)
  case Nil
  then show ?case by simp
next
  case (Cons p ps)
  obtain k v where p: "p = (k, v)"
    by (cases p)
  from Cons.prems have fresh: "k \<notin> set (od_keys d)"
    by (auto simp: p od_keys_def)
  from Cons.prems have "distinct (map fst ((d @ [(k, v)]) @ ps))"
    by (simp add: p)
  then have "foldl (\<lambda>d (k, v). od_set d k v) (d @ [(k, v)]) ps = (d @ [(k, v)]) @ ps"
    by (rule Cons.IH)
  then show ?case
    by (simp add: p od_set_fresh [OF fresh])
qed

lemma od_keys_OrderedDict_zip:
  assumes "distinct ks" and "length vs = length ks"
  shows "od_keys (OrderedDict (zip ks vs)) = ks"
proof -
  have "map fst (zip ks vs) = ks"
    using assms(2) by simp
  then have "distinct (map fst ([] @ zip ks vs))"
    using assms(1) by simp
  then have "OrderedDict (zip ks vs) = zip ks vs"
    unfolding OrderedDict_def by (simp only: foldl_od_set_distinct append_Nil)
  then show ?thesis
    using assms(2) by (simp add: od_keys_def)
qed

lemma distinct_prefixed: "distinct ks \<Longrightarrow> distinct (map ((@) p) ks)"
  by (simp add: distinct_map inj_on_def)

subsection \<open>The keys of the loss dictionaries\<close>

lemma build_loss_wgan_keys:
  "od_keys (fst (build_loss M D G inp))
     = [''loss_real'', ''loss_fake'']
       @ (if use_pose_vae M then [''frame_loss_real''] else [])
       @ (if use_pose_vae M then [''frame_loss_fake''] else [])"
  by (simp add: build_loss_def Let_def od_keys_Nil od_keys_Cons od_keys_set_fresh od_keys_set_when
      set_if_single mem_if_single split del: if_split)

lemma build_loss_disc_keys:
  "od_keys (fst (snd (build_loss M D G inp)))
     = [''disc_loss_wgan'']
       @ (if length (disc_reg_losses D) > 0 then [''disc_loss_reg''] else [])
       @ (if use_pose_vae M then [''frame_disc_loss_wgan''] else [])
       @ (if action_cond M then [''disc_loss_action''] else [])
       @ (if latent_cond_dim M > 0 then [''disc_loss_latent''] else [])"
  by (simp add: build_loss_def Let_def od_keys_Nil od_keys_Cons od_keys_set_fresh od_keys_set_when
      set_if_single mem_if_single split del: if_split)

lemma build_loss_gen_keys:
  "od_keys (snd (snd (build_loss M D G inp)))
     = [''gen_loss_wgan'']
       @ (if length (gen_reg_losses G) > 0 then [''gen_loss_reg''] else [])
       @ [''gen_loss_rec'', ''gen_loss_rec_edm'']
       @ (if use_pose_vae M then [''frame_gen_loss_wgan''] else [])
       @ (if action_cond M then [''gen_loss_action''] else [])
       @ (if latent_cond_dim M > 0 then [''gen_loss_latent''] else [])
       @ (if coherence_loss M then [''gen_loss_coh''] else [])
       @ (if displacement_loss M then [''gen_loss_disp''] else [])
       @ (if shape_loss M then [''gen_loss_shape''] else [])
       @ (if smoothing_loss M then [''gen_loss_smooth''] else [])"
  by (simp add: build_loss_def Let_def od_keys_Nil od_keys_Cons od_keys_set_fresh od_keys_set_when
      set_if_single mem_if_single split del: if_split)

lemma distinct_if_single: "distinct (if c then [k] else [])"
  by simp

lemma if_single_Int_empty:
  "(if c then {k} else {}) \<inter> X = {} \<longleftrightarrow> (c \<longrightarrow> k \<notin> X)"
  "X \<inter> (if c then {k} else {}) = {} \<longleftrightarrow> (c \<longrightarrow> k \<notin> X)"
  by auto

lemmas key_list_simps =
  set_if_single mem_if_single distinct_if_single if_single_Int_empty

lemma build_loss_report_keys_distinct:
  "distinct (od_keys (fst (build_loss M D G inp)) @ od_keys (fst (snd (build_loss M D G inp))))"
  unfolding build_loss_wgan_keys build_loss_disc_keys
  by (simp add: key_list_simps split del: if_split)

lemma build_loss_gen_keys_distinct:
  "distinct (od_keys (snd (snd (build_loss M D G inp))))"
  unfolding build_loss_gen_keys
  by (simp add: key_list_simps split del: if_split)

lemma disc_train_keys:
  "od_keys (disc_train M D G inp)
     = map ((@) ''train/'')
         (od_keys (fst (build_loss M D G inp)) @ od_keys (fst (snd (build_loss M D G inp))))"
proof -
  obtain w d g where b: "build_loss M D G inp = (w, d, g)"
    by (cases "build_loss M D G inp")
  have "distinct (od_keys w @ od_keys d)"
    using build_loss_report_keys_distinct [of M D G inp] by (simp add: b)
  then have "distinct (map ((@) ''train/'') (od_keys w @ od_keys d))"
    by (rule distinct_prefixed)
  moreover have "length (od_values w @ od_values d) = length (map ((@) ''train/'') (od_keys w @ od_keys d))"
    by (simp add: length_od_values)
  ultimately have "od_keys (OrderedDict (zip (map ((@) ''train/'') (od_keys w @ od_keys d))
                                          (od_values w @ od_values d)))
                 = map ((@) ''train/'') (od_keys w @ od_keys d)"
    by (rule od_keys_OrderedDict_zip)
  moreover have "disc_train M D G inp
                 = OrderedDict (zip (map ((@) ''train/'') (od_keys w @ od_keys d)) (od_values w @ od_values d))"
    by (simp only: disc_train_def b Let_def prod.case)
  ultimately show ?thesis
    by (simp only: b fst_conv snd_conv)
qed

lemma disc_eval_keys:
  "od_keys (disc_eval M D G inp)
     = map ((@) ''val/'')
         (od_keys (fst (build_loss M D G inp)) @ od_keys (fst (snd (build_loss M D G inp))))"
proof -
  obtain w d g where b: "build_loss M D G inp = (w, d, g)"
    by (cases "build_loss M D G inp")
  have "distinct (od_keys w @ od_keys d)"
    using build_loss_report_keys_distinct [of M D G inp] by (simp add: b)
  then have "distinct (map ((@) ''val/'') (od_keys w @ od_keys d))"
    by (rule distinct_prefixed)
  moreover have "length (od_values w @ od_values d) = length (map ((@) ''val/'') (od_keys w @ od_keys d))"
    by (simp add: length_od_values)
  ultimately have "od_keys (OrderedDict (zip (map ((@) ''val/'') (od_keys w @ od_keys d))
                                          (od_values w @ od_values d)))
                 = map ((@) ''val/'') (od_keys w @ od_keys d)"
    by (rule od_keys_OrderedDict_zip)
  moreover have "disc_eval M D G inp
                 = OrderedDict (zip (map ((@) ''val/'') (od_keys w @ od_keys d)) (od_values w @ od_values d))"
    by (simp only: disc_eval_def b Let_def prod.case)
  ultimately show ?thesis
    by (simp only: b fst_conv snd_conv)
qed

lemma gen_train_keys:
  "od_keys (gen_train M D G inp) = map ((@) ''train/'') (od_keys (snd (snd (build_loss M D G inp))))"
proof -
  obtain w d g where b: "build_loss M D G inp = (w, d, g)"
    by (cases "build_loss M D G inp")
  have "distinct (od_keys g)"
    using build_loss_gen_keys_distinct [of M D G inp] by (simp add: b)
  then have "distinct (map ((@) ''train/'') (od_keys g))"
    by (rule distinct_prefixed)
  moreover have "length (od_values g) = length (map ((@) ''train/'') (od_keys g))"
    by (simp add: length_od_values)
  ultimately have "od_keys (OrderedDict (zip (map ((@) ''train/'') (od_keys g)) (od_values g)))
                 = map ((@) ''train/'') (od_keys g)"
    by (rule od_keys_OrderedDict_zip)
  moreover have "gen_train M D G inp
                 = OrderedDict (zip (map ((@) ''train/'') (od_keys g)) (od_values g))"
    by (simp only: gen_train_def b Let_def prod.case)
  ultimately show ?thesis
    by (simp only: b fst_conv snd_conv)
qed

lemma unprefixed_not_val: "''vae_z'' \<notin> set (map ((@) ''val/'') ks)" "''gen_outputs'' \<notin> set (map ((@) ''val/'') ks)"
  by auto

lemma gen_eval_keys:
  "od_keys (gen_eval M D G inp)
     = map ((@) ''val/'') (od_keys (snd (snd (build_loss M D G inp))))
       @ (if use_pose_vae M then [''vae_z''] else []) @ [''gen_outputs'']"
proof -
  obtain w d g where b: "build_loss M D G inp = (w, d, g)"
    by (cases "build_loss M D G inp")
  let ?ks = "map ((@) ''val/'') (od_keys g) @ (if use_pose_vae M then [''vae_z''] else []) @ [''gen_outputs'']"
  let ?vs = "map Scalar (od_values g)
             @ (if use_pose_vae M
                then [Latent (vae_z G (in_real_seq inp) (in_seq_mask inp) (in_latent_cond_input inp))]
                else [])
             @ [Sequence (gen_outputs G (in_real_seq inp) (in_seq_mask inp) (in_latent_cond_input inp))]"
  have "distinct (od_keys g)"
    using build_loss_gen_keys_distinct [of M D G inp] by (simp add: b)
  then have "distinct (map ((@) ''val/'') (od_keys g))"
    by (rule distinct_prefixed)
  then have "distinct ?ks"
    using unprefixed_not_val [of "od_keys g"] by auto
  moreover have "length ?vs = length ?ks"
    by (simp add: length_od_values)
  ultimately have "od_keys (OrderedDict (zip ?ks ?vs)) = ?ks"
    by (rule od_keys_OrderedDict_zip)
  moreover have "gen_eval M D G inp = OrderedDict (zip ?ks ?vs)"
    by (simp only: gen_eval_def b Let_def prod.case) simp
  ultimately show ?thesis
    by (simp only: b fst_conv snd_conv)
qed

text \<open>
  Claim C6, as the code has it. For every configuration the reports have these keys,
  in this order. \<^verbatim>\<open>disc_train\<close> and \<^verbatim>\<open>disc_eval\<close>: the keys of the dictionary of
  critic means (\<^verbatim>\<open>loss_real\<close>, \<^verbatim>\<open>loss_fake\<close> and, with the pose sub-encoder, the two
  frame means) followed by the enabled discriminator losses, each prefixed by
  \<^verbatim>\<open>train/\<close> or \<^verbatim>\<open>val/\<close>. \<^verbatim>\<open>gen_train\<close>: the enabled generator losses only,
  prefixed by \<^verbatim>\<open>train/\<close>; \<^verbatim>\<open>loss_real\<close> and \<^verbatim>\<open>loss_fake\<close> are not in it.
  \<^verbatim>\<open>gen_eval\<close>: the enabled generator losses prefixed by \<^verbatim>\<open>val/\<close>, followed
  by the unprefixed keys \<^verbatim>\<open>vae_z\<close> (with the pose sub-encoder) and
  \<^verbatim>\<open>gen_outputs\<close>.
\<close>

theorem report_keys:
  fixes M :: MotionGAN and D :: disc_model and G :: gen_model
  defines "wgan_names \<equiv> [''loss_real'', ''loss_fake'']
       @ (if use_pose_vae M then [''frame_loss_real''] else [])
       @ (if use_pose_vae M then [''frame_loss_fake''] else [])"
    and "disc_names \<equiv> [''disc_loss_wgan'']
       @ (if length (disc_reg_losses D) > 0 then [''disc_loss_reg''] else [])
       @ (if use_pose_vae M then [''frame_disc_loss_wgan''] else [])
       @ (if action_cond M then [''disc_loss_action''] else [])
       @ (if latent_cond_dim M > 0 then [''disc_loss_latent''] else [])"
    and "gen_names \<equiv> [''gen_loss_wgan'']
       @ (if length (gen_reg_losses G) > 0 then [''gen_loss_reg''] else [])
       @ [''gen_loss_rec'', ''gen_loss_rec_edm'']
       @ (if use_pose_vae M then [''frame_gen_loss_wgan''] else [])
       @ (if action_cond M then [''gen_loss_action''] else [])
       @ (if latent_cond_dim M > 0 then [''gen_loss_latent''] else [])
       @ (if coherence_loss M then [''gen_loss_coh''] else [])
       @ (if displacement_loss M then [''gen_loss_disp''] else [])
       @ (if shape_loss M then [''gen_loss_shape''] else [])
       @ (if smoothing_loss M then [''gen_loss_smooth''] else [])"
  shows "od_keys (disc_train M D G inp) = map ((@) ''train/'') (wgan_names @ disc_names)
       \<and> od_keys (disc_eval M D G inp) = map ((@) ''val/'') (wgan_names @ disc_names)
       \<and> od_keys (gen_train M D G inp) = map ((@) ''train/'') gen_names
       \<and> od_keys (gen_eval M D G inp)
           = map ((@) ''val/'') gen_names @ (if use_pose_vae M then [''vae_z''] else [])
             @ [''gen_outputs'']"
  unfolding wgan_names_def disc_names_def gen_names_def
  by (simp only: disc_train_keys disc_eval_keys gen_train_keys gen_eval_keys
      build_loss_wgan_keys build_loss_disc_keys build_loss_gen_keys simp_thms)

text \<open>The reports of the base configuration, on the toy networks.\<close>

theorem report_keys_witness:
  "od_keys (disc_train (MotionGAN_init base_config) toy_disc toy_gen toy_feed)
     = [''train/loss_real'', ''train/loss_fake'', ''train/disc_loss_wgan'', ''train/disc_loss_reg'',
        ''train/disc_loss_action'']
   \<and> od_keys (gen_eval (MotionGAN_init base_config) toy_disc toy_gen toy_feed)
     = [''val/gen_loss_wgan'', ''val/gen_loss_reg'', ''val/gen_loss_rec'', ''val/gen_loss_rec_edm'',
        ''val/gen_loss_action'', ''val/gen_loss_coh'', ''val/gen_loss_shape'', ''val/gen_loss_smooth'',
        ''gen_outputs'']"
  using report_keys [of "MotionGAN_init base_config" toy_disc toy_gen toy_feed]
  by (simp add: MotionGAN_init_def base_config_def toy_disc_def toy_gen_def)

text \<open>
  The claim as stated fails for the generator's entry points: the report of
  \<^verbatim>\<open>gen_train\<close> has no \<^verbatim>\<open>train/loss_real\<close>, and the report of \<^verbatim>\<open>gen_eval\<close> has the
  key \<^verbatim>\<open>gen_outputs\<close>, which is neither a loss name nor prefixed.
\<close>

theorem report_keys_counterexample:
  "''train/loss_real'' \<notin> set (od_keys (gen_train (MotionGAN_init base_config) toy_disc toy_gen toy_feed))
   \<and> ''gen_outputs'' \<in> set (od_keys (gen_eval (MotionGAN_init base_config) toy_disc toy_gen toy_feed))"
  unfolding gen_train_keys gen_eval_keys build_loss_gen_keys
  by (simp add: MotionGAN_init_def base_config_def toy_gen_def)

subsection \<open>The gradient penalty\<close>

lemma interpolates_alpha_one: "interpolates (\<lambda>b. 1) x y = x"
  by (simp add: interpolates_def)

lemma interpolates_alpha_zero: "interpolates (\<lambda>b. 0) x y = y"
  by (simp add: interpolates_def)

lemma frames_update_irrelevant: "frames (M\<lparr>lambda_grads := l\<rparr>) = frames M"
  by (simp add: frames_def)

lemmas gen_side_defs =
  gen_loss_wgan_def loss_score_def loss_rec_def rec_frame_def zero_frames_def zero_sum_def
  loss_rec_edm_def rec_edm_frame_def frame_gen_loss_wgan_def frame_loss_def loss_class_def
  loss_latent_def loss_coh_def exp_decay_def loss_disp_def loss_shape_def real_shape_def
  loss_smooth_def gen_seq_s_def

lemma build_loss_gen_side_ignores_penalty:
  "snd (snd (build_loss (M\<lparr>lambda_grads := l\<rparr>) D G (inp\<lparr>in_alpha := a\<rparr>)))
     = snd (snd (build_loss M D G inp))
   \<and> fst (build_loss (M\<lparr>lambda_grads := l\<rparr>) D G (inp\<lparr>in_alpha := a\<rparr>))
     = fst (build_loss M D G inp)"
  by (simp add: build_loss_def Let_def frames_update_irrelevant gen_side_defs
      split del: if_split cong: if_cong)

lemma map_of_od_set: "map_of (od_set d k v) k' = (if k' = k then Some v else map_of d k')"
  by (induction d) auto

lemma map_of_od_set_when:
  "map_of (od_set_when c d k v) k' = (if c \<and> k' = k then Some v else map_of d k')"
  by (simp add: od_set_when_def map_of_od_set)

lemma build_loss_disc_loss_wgan_entry:
  "map_of (fst (snd (build_loss M D G inp))) ''disc_loss_wgan''
     = Some (K_mean (batch_size M)
               (disc_loss_wgan M D (in_alpha inp) (in_real_seq inp)
                  (gen_outputs G (in_real_seq inp) (in_seq_mask inp) (in_latent_cond_input inp))))"
  by (simp add: build_loss_def Let_def map_of_od_set map_of_od_set_when)

lemma build_loss_gen_loss_wgan_entry:
  "map_of (snd (snd (build_loss M D G inp))) ''gen_loss_wgan''
     = Some (K_mean (batch_size M)
               (gen_loss_wgan D
                  (gen_outputs G (in_real_seq inp) (in_seq_mask inp) (in_latent_cond_input inp))))"
  by (simp add: build_loss_def Let_def map_of_od_set map_of_od_set_when)

lemma frames_MotionGAN_init:
  "frames (MotionGAN_init c) = (if cfg_pick_num c > 0 then cfg_pick_num c else cfg_crop_len c)"
  by (simp add: frames_def MotionGAN_init_def)

lemma MotionGAN_init_fields:
  "gamma_grads (MotionGAN_init c) = 1" "batch_size (MotionGAN_init c) = cfg_batch_size c"
  "lambda_grads (MotionGAN_init c) = cfg_lambda_grads c" "njoints (MotionGAN_init c) = cfg_njoints c"
  by (simp_all add: MotionGAN_init_def)

lemma grad_penalty_explicit:
  "grad_penalty (MotionGAN_init c) D z
     = (\<Sum>b<cfg_batch_size c.
          (sqrt (\<Sum>j<cfg_njoints c.
                   \<Sum>t<(if cfg_pick_num c > 0 then cfg_pick_num c else cfg_crop_len c).
                     \<Sum>k<3. (score_out_grad D z b j t k)\<^sup>2) - 1)\<^sup>2)
       / real (cfg_batch_size c)"
  unfolding grad_penalty_def norm_grad_mixed_def K_mean_def MotionGAN_init_fields
    frames_MotionGAN_init
  by simp

lemma disc_loss_wgan_explicit:
  "K_mean (batch_size (MotionGAN_init c)) (disc_loss_wgan (MotionGAN_init c) D a x y)
     = (\<Sum>b<cfg_batch_size c.
          (score_out D y b 0 - score_out D x b 0
           + cfg_lambda_grads c * grad_penalty (MotionGAN_init c) D (interpolates a x y)))
       / real (cfg_batch_size c)"
  unfolding disc_loss_wgan_def loss_score_def K_mean_def MotionGAN_init_fields
  by simp

lemma gen_loss_wgan_explicit:
  "K_mean (batch_size (MotionGAN_init c)) (gen_loss_wgan D y)
     = (\<Sum>b<cfg_batch_size c. - score_out D y b 0) / real (cfg_batch_size c)"
  unfolding gen_loss_wgan_def loss_score_def K_mean_def MotionGAN_init_fields
  by simp

text \<open>
  Claim C2. For a model built by \<^verbatim>\<open>__init__\<close> (target norm 1), a real batch \<open>x\<close>
  and the generated batch \<open>y\<close>: with the interpolation coefficient 1 for every sample
  the interpolated batch is \<open>x\<close>, and the gradient penalty is the batch mean of
  \<open>(n - 1)\<^sup>2\<close>, where \<open>n\<close> is the square root of the sum of the squares of the
  critic's gradient at \<open>x\<close>, over joints, frames and coordinates; with the
  coefficient 0 the same holds at \<open>y\<close>. The entry \<^verbatim>\<open>disc_loss_wgan\<close> of the
  discriminator dictionary is the batch mean of the fake score minus the real score
  plus \<^verbatim>\<open>lambda_grads\<close> times this penalty, and \<^verbatim>\<open>lambda_grads\<close> is 10 in the base
  configuration. The generator's entry \<^verbatim>\<open>gen_loss_wgan\<close> is the batch mean of minus
  the fake score, without the penalty, and neither the generator's dictionary nor the
  dictionary of the critic means changes when \<^verbatim>\<open>lambda_grads\<close> or the coefficients
  change.
\<close>

theorem grad_penalty_at_endpoints:
  fixes c :: config and D :: disc_model and G :: gen_model and inp :: feed
  defines "M \<equiv> MotionGAN_init c"
    and "B \<equiv> cfg_batch_size c"
    and "J \<equiv> cfg_njoints c"
    and "T \<equiv> (if cfg_pick_num c > 0 then cfg_pick_num c else cfg_crop_len c)"
    and "x \<equiv> in_real_seq inp"
    and "y \<equiv> gen_outputs G (in_real_seq inp) (in_seq_mask inp) (in_latent_cond_input inp)"
  defines "penalty_at \<equiv> \<lambda>z. (\<Sum>b<B. (sqrt (\<Sum>j<J. \<Sum>t<T. \<Sum>k<3. (score_out_grad D z b j t k)\<^sup>2) - 1)\<^sup>2)
                                 / real B"
  shows "interpolates (\<lambda>b. 1) x y = x
    \<and> interpolates (\<lambda>b. 0) x y = y
    \<and> grad_penalty M D (interpolates (\<lambda>b. 1) x y) = penalty_at x
    \<and> grad_penalty M D (interpolates (\<lambda>b. 0) x y) = penalty_at y
    \<and> map_of (fst (snd (build_loss M D G (inp\<lparr>in_alpha := (\<lambda>b. 1)\<rparr>)))) ''disc_loss_wgan''
        = Some ((\<Sum>b<B. (score_out D y b 0 - score_out D x b 0 + cfg_lambda_grads c * penalty_at x))
                / real B)
    \<and> map_of (fst (snd (build_loss M D G (inp\<lparr>in_alpha := (\<lambda>b. 0)\<rparr>)))) ''disc_loss_wgan''
        = Some ((\<Sum>b<B. (score_out D y b 0 - score_out D x b 0 + cfg_lambda_grads c * penalty_at y))
                / real B)
    \<and> map_of (fst (snd (build_loss M D G inp))) ''disc_loss_wgan''
        = Some ((\<Sum>b<B. (score_out D y b 0 - score_out D x b 0
                           + cfg_lambda_grads c * penalty_at (interpolates (in_alpha inp) x y)))
                / real B)
    \<and> map_of (snd (snd (build_loss M D G inp))) ''gen_loss_wgan''
        = Some ((\<Sum>b<B. - score_out D y b 0) / real B)
    \<and> cfg_lambda_grads base_config = 10
    \<and> snd (snd (build_loss (M'\<lparr>lambda_grads := l\<rparr>) D G (inp\<lparr>in_alpha := a'\<rparr>)))
        = snd (snd (build_loss M' D G inp))
    \<and> fst (build_loss (M'\<lparr>lambda_grads := l\<rparr>) D G (inp\<lparr>in_alpha := a'\<rparr>))
        = fst (build_loss M' D G inp)"
proof -
  have gp: "grad_penalty M D z = penalty_at z" for z
    unfolding M_def penalty_at_def B_def J_def T_def by (rule grad_penalty_explicit)
  have entry: "map_of (fst (snd (build_loss M D G i))) ''disc_loss_wgan''
        = Some ((\<Sum>b<B. (score_out D y b 0 - score_out D x b 0
                           + cfg_lambda_grads c * penalty_at (interpolates (in_alpha i) x y)))
                / real B)"
    if "in_real_seq i = in_real_seq inp" "in_seq_mask i = in_seq_mask inp"
      "in_latent_cond_input i = in_latent_cond_input inp" for i
    unfolding build_loss_disc_loss_wgan_entry that
    unfolding M_def disc_loss_wgan_explicit
    unfolding M_def [symmetric] gp y_def [symmetric] B_def [symmetric]
    unfolding x_def [symmetric] ..
  have e1: "map_of (fst (snd (build_loss M D G (inp\<lparr>in_alpha := (\<lambda>b. 1)\<rparr>)))) ''disc_loss_wgan''
        = Some ((\<Sum>b<B. (score_out D y b 0 - score_out D x b 0 + cfg_lambda_grads c * penalty_at x))
                / real B)"
    using entry [of "inp\<lparr>in_alpha := (\<lambda>b. 1)\<rparr>"] by (simp add: interpolates_alpha_one)
  have e0: "map_of (fst (snd (build_loss M D G (inp\<lparr>in_alpha := (\<lambda>b. 0)\<rparr>)))) ''disc_loss_wgan''
        = Some ((\<Sum>b<B. (score_out D y b 0 - score_out D x b 0 + cfg_lambda_grads c * penalty_at y))
                / real B)"
    using entry [of "inp\<lparr>in_alpha := (\<lambda>b. 0)\<rparr>"] by (simp add: interpolates_alpha_zero)
  have ea: "map_of (fst (snd (build_loss M D G inp))) ''disc_loss_wgan''
        = Some ((\<Sum>b<B. (score_out D y b 0 - score_out D x b 0
                           + cfg_lambda_grads c * penalty_at (interpolates (in_alpha inp) x y)))
                / real B)"
    using entry [of inp] by simp
  have g: "map_of (snd (snd (build_loss M D G inp))) ''gen_loss_wgan''
        = Some ((\<Sum>b<B. - score_out D y b 0) / real B)"
    unfolding build_loss_gen_loss_wgan_entry
    unfolding M_def gen_loss_wgan_explicit
    unfolding y_def [symmetric] B_def [symmetric] ..
  have lam: "cfg_lambda_grads base_config = 10"
    by (simp add: base_config_def)
  note inv = build_loss_gen_side_ignores_penalty [where M = M' and l = l and D = D and G = G
      and inp = inp and a = a']
  show ?thesis
    using gp [of x] gp [of y] e1 e0 ea g lam inv
    by (simp only: interpolates_alpha_one interpolates_alpha_zero simp_thms)
qed

text \<open>
  One sample, one joint, one frame; the toy critic, whose gradient is twice the first
  entry of the sample; the real batch of ones and the generator that answers one
  half. At the real batch the norm is 2 and the penalty 1, so the discriminator loss
  is \<open>1/4 - 1 + 10\<close>; at the generated batch the norm is 1 and the penalty 0, so
  the loss is \<open>1/4 - 1\<close>.
\<close>

theorem grad_penalty_at_endpoints_witness:
  "map_of (fst (snd (build_loss (MotionGAN_init one_by_one_config) toy_disc half_gen feed_alpha_one)))
      ''disc_loss_wgan'' = Some (37 / 4)
   \<and> map_of (fst (snd (build_loss (MotionGAN_init one_by_one_config) toy_disc half_gen feed_alpha_zero)))
      ''disc_loss_wgan'' = Some (- 3 / 4)"
proof -
  note ends = grad_penalty_at_endpoints [where c = one_by_one_config and D = toy_disc
      and G = half_gen and inp = toy_feed]
  have c: "cfg_batch_size one_by_one_config = Suc 0" "cfg_njoints one_by_one_config = Suc 0"
    "cfg_pick_num one_by_one_config = Suc 0" "cfg_lambda_grads one_by_one_config = 10"
    by (simp_all add: one_by_one_config_def base_config_def)
  have i: "in_real_seq toy_feed = ones_seq"
    "gen_outputs half_gen z (in_seq_mask toy_feed) (in_latent_cond_input toy_feed) = half_seq" for z
    by (simp_all add: toy_feed_def half_gen_def)
  have v: "score_out toy_disc ones_seq 0 0 = 1" "score_out toy_disc half_seq 0 0 = 1 / 4"
    "score_out_grad toy_disc ones_seq 0 0 0 0 = 2" "score_out_grad toy_disc ones_seq 0 0 0 (Suc 0) = 0"
    "score_out_grad toy_disc ones_seq 0 0 0 2 = 0"
    "score_out_grad toy_disc half_seq 0 0 0 0 = 1" "score_out_grad toy_disc half_seq 0 0 0 (Suc 0) = 0"
    "score_out_grad toy_disc half_seq 0 0 0 2 = 0"
    by (simp_all add: toy_disc_def ones_seq_def half_seq_def power2_eq_square)
  have "map_of (fst (snd (build_loss (MotionGAN_init one_by_one_config) toy_disc half_gen
                  (toy_feed\<lparr>in_alpha := (\<lambda>b. 1)\<rparr>)))) ''disc_loss_wgan'' = Some (37 / 4)"
    using ends [THEN conjunct2, THEN conjunct2, THEN conjunct2, THEN conjunct2, THEN conjunct1]
    by (simp add: c i v sum_upto3)
  moreover have "map_of (fst (snd (build_loss (MotionGAN_init one_by_one_config) toy_disc half_gen
                  (toy_feed\<lparr>in_alpha := (\<lambda>b. 0)\<rparr>)))) ''disc_loss_wgan'' = Some (- 3 / 4)"
    using ends [THEN conjunct2, THEN conjunct2, THEN conjunct2, THEN conjunct2, THEN conjunct2,
        THEN conjunct1]
    by (simp add: c i v sum_upto3)
  ultimately show ?thesis
    by (simp only: feed_alpha_one_def feed_alpha_zero_def simp_thms)
qed

subsection \<open>Vectors to quaternions\<close>








subsection \<open>The skip connections of the pose sub-encoder\<close>

lemma str_nat_digits: "str_nat 0 = ''0''" "str_nat (Suc 0) = ''1''" "str_nat 2 = ''2''"
  by (simp_all add: str_nat.simps)

lemma range3: "[0..<3] = [0, Suc 0, 2]"
  by (simp add: upt_rec)

lemma enc_block_facts:
  "kshape (enc_block M i h) = kshape h"
  "kname (enc_block M i h) = ''pose_vae/enc_'' @ str_nat i @ ''_attention''"
  "map kname (kinputs (enc_block M i h))
     = [kname h, ''pose_vae/enc_'' @ str_nat i @ ''_1'', ''pose_vae/enc_'' @ str_nat i @ ''_tau'']"
  by (simp_all add: enc_block_def Lambda3_def Conv1D_def Let_def)

lemma enc_loop3:
  "enc_loop M [0..<3] (h, []) =
     (enc_block M 2 (enc_block M (Suc 0) (enc_block M 0 h)),
      [enc_block M 0 h, enc_block M (Suc 0) (enc_block M 0 h),
       enc_block M 2 (enc_block M (Suc 0) (enc_block M 0 h))])"
  by (simp add: enc_loop_def range3 Let_def)

lemma pose_vae_encoder_result:
  assumes "seq_len M = Some T" and "kshape x = [njoints M, T, 3]"
  defines "h \<equiv> Conv1D (vae_intermediate_dim M) ''pose_vae/enc_in''
                  (KT ''pose_vae/resh_in'' [T, njoints M * 3] [Permute [2, 1, 3] ''pose_vae/perm_in'' x])"
  defines "e0 \<equiv> enc_block M 0 h"
  defines "e1 \<equiv> enc_block M (Suc 0) e0"
  defines "e2 \<equiv> enc_block M 2 e1"
  shows "\<exists>x' z. pose_vae_encoder M x
           = Some (x', \<lparr>self_enc_layers = [e0, e1, e2], self_vae_z = z, self_nblocks = 4\<rparr>)
         \<and> kshape x' = [T, njoints M * 3, 1]"
    and "kshape e0 = [T, njoints M * 3]" "kshape e1 = [T, njoints M * 3]" "kshape e2 = [T, njoints M * 3]"
    and "kname h = ''pose_vae/enc_in''"
proof -
  have p: "kshape (Permute [2, 1, 3] ''pose_vae/perm_in'' x) = [T, njoints M, 3]"
    by (simp add: Permute_def assms(2))
  have r: "Reshape [T, njoints M * 3] ''pose_vae/resh_in'' (Permute [2, 1, 3] ''pose_vae/perm_in'' x)
         = Some (KT ''pose_vae/resh_in'' [T, njoints M * 3] [Permute [2, 1, 3] ''pose_vae/perm_in'' x])"
    unfolding Reshape_def p by simp
  have hs: "kshape h = [T, njoints M * 3]"
    by (simp add: h_def Conv1D_def vae_intermediate_dim_def vae_original_dim_def)
  show s: "kshape e0 = [T, njoints M * 3]" "kshape e1 = [T, njoints M * 3]" "kshape e2 = [T, njoints M * 3]"
    by (simp_all add: e0_def e1_def e2_def enc_block_facts hs)
  show "kname h = ''pose_vae/enc_in''"
    by (simp add: h_def Conv1D_def)
  show "\<exists>x' z. pose_vae_encoder M x
           = Some (x', \<lparr>self_enc_layers = [e0, e1, e2], self_vae_z = z, self_nblocks = 4\<rparr>)
         \<and> kshape x' = [T, njoints M * 3, 1]"
    unfolding pose_vae_encoder_def assms(1) option.case Let_def r
    unfolding h_def [symmetric] enc_loop3 prod.case e0_def [symmetric] e1_def [symmetric]
      e2_def [symmetric]
    by (simp add: Reshape_def Multiply_def Conv1D_def s vae_latent_dim_def vae_original_dim_def)
qed

lemma pose_vae_decoder_result:
  assumes "seq_len M = Some T" and "kshape y = [T, njoints M * 3, F]"
    and "kshape e0 = [T, njoints M * 3]" and "kshape e1 = [T, njoints M * 3]"
    and "kshape e2 = [T, njoints M * 3]"
  shows "\<exists>out. pose_vae_decoder M \<lparr>self_enc_layers = [e0, e1, e2], self_vae_z = z, self_nblocks = n\<rparr> y
                  = Some [out]
           \<and> kshape out = [njoints M, T, 3]
           \<and> map (skip_of out) [0, 1, 2] = [Some e2, Some e1, Some e0]
           \<and> map (map_option kname \<circ> dec_skip_cat out) [0, 1, 2]
               = [Some ''pose_vae/dec_0_skip_cat'', Some ''pose_vae/dec_1_skip_cat'',
                  Some ''pose_vae/dec_2_skip_cat'']"
proof -
  define d where "d = Conv1D (vae_intermediate_dim M) ''pose_vae/dec_in''
                        (KT ''generator/vae_reshape'' [T, vae_latent_dim M] [Conv2D 1 ''generator/vae_merge'' y])"
  have ds: "kshape d = [T, njoints M * 3]"
    by (simp add: d_def Conv1D_def vae_intermediate_dim_def vae_original_dim_def)
  have blk: "\<exists>a cat. dec_block M [e0, e1, e2] i dec_h = Some a \<and> kshape a = [T, njoints M * 3]
               \<and> follow [0] a = Some dec_h \<and> follow [1, 0, 0] a = Some cat
               \<and> kname cat = ''pose_vae/dec_'' @ str_nat i @ ''_skip_cat''
               \<and> kinputs cat = [dec_h, [e0, e1, e2] ! (2 - i)]"
    if "kshape dec_h = [T, njoints M * 3]" "i \<le> 2" for i dec_h
  proof -
    have "i = 0 \<or> i = Suc 0 \<or> i = 2"
      using that(2) by auto
    then show ?thesis
      using that(1) assms(3-5)
      by (auto simp: dec_block_def py_index_def Concatenate_def Conv1D_def Lambda3_def Let_def)
  qed
  obtain a0 c0 where a0: "dec_block M [e0, e1, e2] 0 d = Some a0" "kshape a0 = [T, njoints M * 3]"
      "follow [0] a0 = Some d" "follow [1, 0, 0] a0 = Some c0"
      "kname c0 = ''pose_vae/dec_0_skip_cat''" "kinputs c0 = [d, e2]"
    using blk [OF ds, of 0] by (auto simp: str_nat_digits)
  obtain a1 c1 where a1: "dec_block M [e0, e1, e2] (Suc 0) a0 = Some a1" "kshape a1 = [T, njoints M * 3]"
      "follow [0] a1 = Some a0" "follow [1, 0, 0] a1 = Some c1"
      "kname c1 = ''pose_vae/dec_1_skip_cat''" "kinputs c1 = [a0, e1]"
    using blk [OF a0(2), of "Suc 0"] by (auto simp: str_nat_digits)
  obtain a2 c2 where a2: "dec_block M [e0, e1, e2] 2 a1 = Some a2" "kshape a2 = [T, njoints M * 3]"
      "follow [0] a2 = Some a1" "follow [1, 0, 0] a2 = Some c2"
      "kname c2 = ''pose_vae/dec_2_skip_cat''" "kinputs c2 = [a1, e0]"
    using blk [OF a1(2), of 2] by (auto simp: str_nat_digits)
  have loop: "dec_loop M [e0, e1, e2] [0..<3] d = Some a2"
    by (simp add: range3 a0(1) a1(1) a2(1))
  define out where "out = Permute [2, 1, 3] ''generator/coords_permute''
      (KT ''generator/coords_reshape'' [T, njoints M, 3]
         [Permute [2, 1, 3] ''pose_vae/perm_out''
            (KT ''pose_vae/resh_out'' [T, njoints M, 3] [Conv1D (vae_original_dim M) ''pose_vae/dec_out'' a2])])"
  have r1: "Reshape [T, vae_latent_dim M] ''generator/vae_reshape'' (Conv2D 1 ''generator/vae_merge'' y)
          = Some (KT ''generator/vae_reshape'' [T, vae_latent_dim M] [Conv2D 1 ''generator/vae_merge'' y])"
    by (simp add: Reshape_def Conv2D_def assms(2) vae_latent_dim_def vae_original_dim_def)
  have r2: "Reshape [T, njoints M, 3] ''pose_vae/resh_out'' (Conv1D (vae_original_dim M) ''pose_vae/dec_out'' a2)
          = Some (KT ''pose_vae/resh_out'' [T, njoints M, 3] [Conv1D (vae_original_dim M) ''pose_vae/dec_out'' a2])"
    by (simp add: Reshape_def Conv1D_def a2(2) vae_original_dim_def)
  have r3: "Reshape [T, njoints M, 3] ''generator/coords_reshape''
              (Permute [2, 1, 3] ''pose_vae/perm_out''
                 (KT ''pose_vae/resh_out'' [T, njoints M, 3] [Conv1D (vae_original_dim M) ''pose_vae/dec_out'' a2]))
          = Some (KT ''generator/coords_reshape'' [T, njoints M, 3]
                    [Permute [2, 1, 3] ''pose_vae/perm_out''
                       (KT ''pose_vae/resh_out'' [T, njoints M, 3] [Conv1D (vae_original_dim M) ''pose_vae/dec_out'' a2])])"
    by (simp add: Reshape_def Permute_def ac_simps)
  have dec: "pose_vae_decoder M \<lparr>self_enc_layers = [e0, e1, e2], self_vae_z = z, self_nblocks = n\<rparr> y
               = Some [out]"
    unfolding pose_vae_decoder_def assms(1) option.case Let_def r1 d_def [symmetric]
      vae_state.simps loop r2 r3 out_def [symmetric] ..
  have top: "follow [0, 0, 0, 0, 0] out = Some a2"
    by (simp add: out_def Permute_def Conv1D_def)
  have f2: "follow (replicate (7 - 2) 0 @ [1, 0, 0]) out = Some c2"
    using top a2(4) by (simp add: out_def Permute_def Conv1D_def eval_nat_numeral)
  have f1: "follow (replicate (7 - 1) 0 @ [1, 0, 0]) out = Some c1"
    using top a2(3) a1(4) by (simp add: out_def Permute_def Conv1D_def eval_nat_numeral split: if_splits)
  have f0: "follow (replicate (7 - 0) 0 @ [1, 0, 0]) out = Some c0"
    using top a2(3) a1(3) a0(4)
    by (simp add: out_def Permute_def Conv1D_def eval_nat_numeral split: if_splits)
  have "kshape out = [njoints M, T, 3]"
    by (simp add: out_def Permute_def)
  moreover have "map (skip_of out) [0, 1, 2] = [Some e2, Some e1, Some e0]"
    using f0 f1 f2 by (simp add: skip_of_def dec_skip_cat_def py_index_def a0(6) a1(6) a2(6))
  moreover have "map (map_option kname \<circ> dec_skip_cat out) [0, 1, 2]
               = [Some ''pose_vae/dec_0_skip_cat'', Some ''pose_vae/dec_1_skip_cat'',
                  Some ''pose_vae/dec_2_skip_cat'']"
    using f0 f1 f2 by (simp add: dec_skip_cat_def a0(5) a1(5) a2(5))
  ultimately show ?thesis
    using dec by simp
qed

text \<open>
  Claim C5, as the code has it. With the pose sub-encoder, for a model with sequence
  length \<open>T\<close> and \<open>J\<close> joints, a masked input of shape \<open>(J, T, 3)\<close> and a generator
  body whose output has shape \<open>(T, 3 J, F)\<close>, both methods succeed. The encoder
  stores three tensors, one for each block: the output of the block's gate layer
  \<^verbatim>\<open>pose_vae/enc_k_attention\<close>, which was called on the block's input, its transform
  and its gate, so the tensor is captured after the gate is applied. Decoder block
  \<open>i\<close> concatenates, as the second input of \<^verbatim>\<open>pose_vae/dec_i_skip_cat\<close>, the
  tensor stored by encoder block \<open>2 - i\<close>. The output has shape \<open>(J, T, 3)\<close>.
\<close>

theorem pose_vae_skip_connections:
  assumes "seq_len M = Some T" and "kshape x = [njoints M, T, 3]"
    and "kshape y = [T, njoints M * 3, F]"
  shows "\<exists>x' self e0 e1 e2 out.
      pose_vae_encoder M x = Some (x', self) \<and> kshape x' = [T, njoints M * 3, 1]
      \<and> self_enc_layers self = [e0, e1, e2]
      \<and> map kname [e0, e1, e2]
          = [''pose_vae/enc_0_attention'', ''pose_vae/enc_1_attention'', ''pose_vae/enc_2_attention'']
      \<and> map (map kname \<circ> kinputs) [e0, e1, e2]
          = [[''pose_vae/enc_in'', ''pose_vae/enc_0_1'', ''pose_vae/enc_0_tau''],
             [''pose_vae/enc_0_attention'', ''pose_vae/enc_1_1'', ''pose_vae/enc_1_tau''],
             [''pose_vae/enc_1_attention'', ''pose_vae/enc_2_1'', ''pose_vae/enc_2_tau'']]
      \<and> pose_vae_decoder M self y = Some [out] \<and> kshape out = [njoints M, T, 3]
      \<and> map (skip_of out) [0, 1, 2] = [Some e2, Some e1, Some e0]
      \<and> map (map_option kname \<circ> dec_skip_cat out) [0, 1, 2]
          = [Some ''pose_vae/dec_0_skip_cat'', Some ''pose_vae/dec_1_skip_cat'',
             Some ''pose_vae/dec_2_skip_cat'']"
proof -
  define h where "h = Conv1D (vae_intermediate_dim M) ''pose_vae/enc_in''
                  (KT ''pose_vae/resh_in'' [T, njoints M * 3] [Permute [2, 1, 3] ''pose_vae/perm_in'' x])"
  define e0 where "e0 = enc_block M 0 h"
  define e1 where "e1 = enc_block M (Suc 0) e0"
  define e2 where "e2 = enc_block M 2 e1"
  note enc = pose_vae_encoder_result [OF assms(1,2), folded h_def, folded e0_def, folded e1_def,
      folded e2_def]
  from enc(1) obtain x' z where
    x': "pose_vae_encoder M x = Some (x', \<lparr>self_enc_layers = [e0, e1, e2], self_vae_z = z, self_nblocks = 4\<rparr>)"
      "kshape x' = [T, njoints M * 3, 1]"
    by (elim exE conjE) (rule that)
  from pose_vae_decoder_result [OF assms(1,3) enc(2,3,4), of z 4] obtain out where
    out: "pose_vae_decoder M \<lparr>self_enc_layers = [e0, e1, e2], self_vae_z = z, self_nblocks = 4\<rparr> y = Some [out]"
      "kshape out = [njoints M, T, 3]"
      "map (skip_of out) [0, 1, 2] = [Some e2, Some e1, Some e0]"
      "map (map_option kname \<circ> dec_skip_cat out) [0, 1, 2]
         = [Some ''pose_vae/dec_0_skip_cat'', Some ''pose_vae/dec_1_skip_cat'',
            Some ''pose_vae/dec_2_skip_cat'']"
    by (elim exE conjE) (rule that)
  have names: "map kname [e0, e1, e2]
          = [''pose_vae/enc_0_attention'', ''pose_vae/enc_1_attention'', ''pose_vae/enc_2_attention'']"
    by (simp add: e0_def e1_def e2_def enc_block_facts str_nat_digits)
  have ins: "map (map kname \<circ> kinputs) [e0, e1, e2]
          = [[''pose_vae/enc_in'', ''pose_vae/enc_0_1'', ''pose_vae/enc_0_tau''],
             [''pose_vae/enc_0_attention'', ''pose_vae/enc_1_1'', ''pose_vae/enc_1_tau''],
             [''pose_vae/enc_1_attention'', ''pose_vae/enc_2_1'', ''pose_vae/enc_2_tau'']]"
    using enc(5) by (simp add: e0_def e1_def e2_def enc_block_facts str_nat_digits)
  show ?thesis
    using x' out names ins
    by (intro exI [of _ x'] exI [of _ "\<lparr>self_enc_layers = [e0, e1, e2], self_vae_z = z, self_nblocks = 4\<rparr>"]
        exI [of _ e0] exI [of _ e1] exI [of _ e2] exI [of _ out]) simp
qed

text \<open>The scenario of 4 joints and 8 frames, with a generator body of 32 filters.\<close>

theorem pose_vae_skip_connections_witness:
  "\<exists>out. gen_outputs_pose_vae vae_model_4_8 toy_gen_body masked_input_4_8 = Some [out]
         \<and> kshape out = [4, 8, 3]"
proof -
  have h1: "seq_len vae_model_4_8 = Some 8"
    by (simp add: vae_model_4_8_def MotionGAN_init_def base_config_def)
  have j: "njoints vae_model_4_8 = 4"
    by (simp add: vae_model_4_8_def MotionGAN_init_def)
  have h2: "kshape masked_input_4_8 = [njoints vae_model_4_8, 8, 3]"
    by (simp add: masked_input_4_8_def Multiply_def j)
  have h0: "kshape (KT ''y'' [8, 12, 0] []) = [8, njoints vae_model_4_8 * 3, 0]"
    by (simp add: j)
  from pose_vae_skip_connections [OF h1 h2 h0] obtain x' self where
    e: "pose_vae_encoder vae_model_4_8 masked_input_4_8 = Some (x', self)"
      "kshape x' = [8, njoints vae_model_4_8 * 3, 1]"
    by (elim exE conjE) (rule that)
  have h3: "kshape (toy_gen_body x') = [8, njoints vae_model_4_8 * 3, 32]"
    by (simp add: toy_gen_body_def Conv2D_def e(2))
  from pose_vae_skip_connections [OF h1 h2 h3] obtain x'' self' out where
    o: "pose_vae_encoder vae_model_4_8 masked_input_4_8 = Some (x'', self')"
      "pose_vae_decoder vae_model_4_8 self' (toy_gen_body x') = Some [out]"
      "kshape out = [njoints vae_model_4_8, 8, 3]"
    by (elim exE conjE) (rule that)
  from e(1) o(1) have "x'' = x'" "self' = self"
    by simp_all
  with o show ?thesis
    by (simp add: gen_outputs_pose_vae_def j)
qed

text \<open>
  The claim as stated fails there: the tensor that decoder block 0 concatenates is the
  output of the gate layer of encoder block 2, \<^verbatim>\<open>pose_vae/enc_2_attention\<close>, a layer
  whose inputs are the block's input, its transform and its gate. It is the
  activation after the gate, not the one before it.
\<close>

theorem pose_vae_skip_counterexample:
  "map_option kname (example_skip 0) = Some ''pose_vae/enc_2_attention''
   \<and> map_option (map kname \<circ> kinputs) (example_skip 0)
       = Some [''pose_vae/enc_1_attention'', ''pose_vae/enc_2_1'', ''pose_vae/enc_2_tau'']"
proof -
  let ?M = vae_model_4_8
  have h1: "seq_len ?M = Some 8"
    by (simp add: vae_model_4_8_def MotionGAN_init_def base_config_def)
  have h2: "kshape masked_input_4_8 = [njoints ?M, 8, 3]"
    by (simp add: masked_input_4_8_def Multiply_def vae_model_4_8_def MotionGAN_init_def)
  define h where "h = Conv1D (vae_intermediate_dim ?M) ''pose_vae/enc_in''
      (KT ''pose_vae/resh_in'' [8, njoints ?M * 3] [Permute [2, 1, 3] ''pose_vae/perm_in'' masked_input_4_8])"
  define e0 where "e0 = enc_block ?M 0 h"
  define e1 where "e1 = enc_block ?M (Suc 0) e0"
  define e2 where "e2 = enc_block ?M 2 e1"
  note enc = pose_vae_encoder_result [OF h1 h2, folded h_def, folded e0_def, folded e1_def,
      folded e2_def]
  from enc(1) obtain x' z where
    x': "pose_vae_encoder ?M masked_input_4_8
           = Some (x', \<lparr>self_enc_layers = [e0, e1, e2], self_vae_z = z, self_nblocks = 4\<rparr>)"
      "kshape x' = [8, njoints ?M * 3, 1]"
    by (elim exE conjE) (rule that)
  have h3: "kshape (toy_gen_body x') = [8, njoints ?M * 3, 32]"
    by (simp add: toy_gen_body_def Conv2D_def x'(2))
  from pose_vae_decoder_result [OF h1 h3 enc(2,3,4), of z 4] obtain out where
    out: "pose_vae_decoder ?M \<lparr>self_enc_layers = [e0, e1, e2], self_vae_z = z, self_nblocks = 4\<rparr>
            (toy_gen_body x') = Some [out]"
      "map (skip_of out) [0, 1, 2] = [Some e2, Some e1, Some e0]"
    by (elim exE conjE) (rule that)
  from out(2) have "skip_of out 0 = Some e2"
    by simp
  then have s: "example_skip 0 = Some e2"
    by (simp add: example_skip_def gen_outputs_pose_vae_def x'(1) out(1))
  have "kname e2 = ''pose_vae/enc_2_attention''"
    by (simp add: e2_def enc_block_facts str_nat_digits)
  moreover have "map kname (kinputs e2) = [''pose_vae/enc_1_attention'', ''pose_vae/enc_2_1'', ''pose_vae/enc_2_tau'']"
    by (simp add: e2_def e1_def enc_block_facts str_nat_digits)
  ultimately show ?thesis
    by (simp add: s)
qed

end
